theory Spec2Isabelle
  imports Main
begin

section \<open>ExpiryX: the periodic expiry and low-stock jobs\<close>

text \<open>
  A shallow embedding of \<^verbatim>\<open>app/tasks/expiry_checker.py\<close>, of the columns of
  \<^verbatim>\<open>app/models.py\<close> that the two jobs read or write, and of the two thresholds of
  \<^verbatim>\<open>app/config.py\<close>.

  Conventions of the embedding.
  \<^item> A \<^verbatim>\<open>date\<close> is its day number (\<^verbatim>\<open>date.toordinal()\<close>, from 1 for 0001-01-01 to
    3652059 for 9999-12-31); \<^verbatim>\<open>(d - e).days\<close> is \<open>d - e\<close>. Constructing
    \<^verbatim>\<open>timedelta(days=n)\<close> and adding it to a date raise \<^verbatim>\<open>OverflowError\<close> outside the
    ranges of the two types, as in Python.
  \<^item> A timestamp is a point in time, in seconds, on the scale on which day \<open>d\<close> starts
    at second \<open>d * 86400\<close> in UTC. A pass reads two clocks that nothing in the code
    relates: \<^verbatim>\<open>date.today()\<close> of the process, and \<^verbatim>\<open>now()\<close> of the database server,
    which is the default of \<^verbatim>\<open>created_at\<close>. Where the job compares \<^verbatim>\<open>created_at\<close> with
    the date \<^verbatim>\<open>today\<close>, the date stands for midnight of that day in a time zone that the
    job does not choose (the setting \<^verbatim>\<open>TIMEZONE\<close> is read nowhere); its offset from UTC is
    a parameter of the model.
  \<^item> Tables are lists of rows in the order a query returns them; the read-only
    reference tables (products, branches) are maps from the primary key. The two flags
    of a batch are never null (every insert sets them or takes the column default).
  \<^item> What raises in the source is a branch of the model: the data store is allowed to
    raise at every statement, the notification service at every call.
\<close>

subsection \<open>Dates, times and printing\<close>

type_synonym date = int
type_synonym timestamp = int

text \<open>The clocks as a pass reads them: \<open>local_date\<close> is \<^verbatim>\<open>date.today()\<close>, \<open>server_now\<close>
  is the server's \<^verbatim>\<open>now()\<close>, \<open>cast_offset\<close> is the offset from UTC, in seconds to the
  east, of the time zone in which a date is taken as a timestamp.\<close>

record clock =
  local_date :: date
  server_now :: timestamp
  cast_offset :: int

text \<open>A date compared with a timestamp column: midnight of the day, in the zone of the
  cast.\<close>

definition cast_date :: "int \<Rightarrow> date \<Rightarrow> timestamp" where
  "cast_date offset d = d * 86400 - offset"

text \<open>Python's \<^verbatim>\<open>_is_leap\<close>, \<^verbatim>\<open>_days_before_year\<close>, \<^verbatim>\<open>_days_before_month\<close> and
  \<^verbatim>\<open>_ymd2ord\<close>: the day number of a calendar date, 0001-01-01 being day 1. The jobs
  do not call them; they serve to write the dates of the examples.\<close>

definition is_leap :: "int \<Rightarrow> bool" where
  "is_leap y \<longleftrightarrow> y mod 4 = 0 \<and> (y mod 100 \<noteq> 0 \<or> y mod 400 = 0)"

definition days_before_year :: "int \<Rightarrow> int" where
  "days_before_year year =
     (let y = year - 1 in y * 365 + y div 4 - y div 100 + y div 400)"

definition days_before_month :: "int \<Rightarrow> nat \<Rightarrow> int" where
  "days_before_month year month =
     ([-1, 0, 31, 59, 90, 120, 151, 181, 212, 243, 273, 304, 334] ! month)
     + (if month > 2 \<and> is_leap year then 1 else 0)"

definition ymd2ord :: "int \<Rightarrow> nat \<Rightarrow> int \<Rightarrow> date" where
  "ymd2ord year month day = days_before_year year + days_before_month year month + day"

text \<open>\<^verbatim>\<open>str(n)\<close> of an integer, as the f-strings of the job print it.\<close>

definition digit_char :: "nat \<Rightarrow> char" where
  "digit_char n = ''0123456789'' ! n"

fun str_nat :: "nat \<Rightarrow> string" where
  "str_nat n = (if n < 10 then [digit_char n]
                else str_nat (n div 10) @ [digit_char (n mod 10)])"

declare str_nat.simps [simp del]

definition str_int :: "int \<Rightarrow> string" where
  "str_int i = (if i < 0 then CHR ''-'' # str_nat (nat (- i)) else str_nat (nat i))"

subsection \<open>Exceptions, and the arithmetic of dates\<close>

text \<open>\<open>MultipleResultsFound\<close> is raised by \<^verbatim>\<open>scalar_one_or_none()\<close>, \<open>OverflowError msg\<close>
  by the date arithmetic; \<open>Raised msg\<close> is any other exception. In each case \<open>msg\<close> is
  the \<^verbatim>\<open>str(e)\<close> that the handlers of the jobs log.\<close>

datatype error = MultipleResultsFound | OverflowError string | Raised string

fun error_str :: "error \<Rightarrow> string" where
  "error_str MultipleResultsFound = ''Multiple rows were found when one or none was required''"
| "error_str (OverflowError msg) = msg"
| "error_str (Raised msg) = msg"

text \<open>\<^verbatim>\<open>timedelta(days=n)\<close>: the number of days must fit a C \<^verbatim>\<open>int\<close> and have a magnitude
  of at most 999999999.\<close>

definition timedelta :: "int \<Rightarrow> error + int" where
  "timedelta days =
     (if days < - 2147483648 \<or> 2147483647 < days then
        Inl (OverflowError ''Python int too large to convert to C int'')
      else if days < - 999999999 \<or> 999999999 < days then
        Inl (OverflowError (''days='' @ str_int days @ ''; must have magnitude <= 999999999''))
      else Inr days)"

text \<open>\<^verbatim>\<open>date + timedelta\<close>: the result must be a date of the years 1 to 9999.\<close>

definition MAXORDINAL :: int where
  "MAXORDINAL = 3652059"

definition date_add :: "date \<Rightarrow> int \<Rightarrow> error + date" where
  "date_add d delta =
     (if 0 < d + delta \<and> d + delta \<le> MAXORDINAL then Inr (d + delta)
      else Inl (OverflowError ''date value out of range''))"

text \<open>\<^verbatim>\<open>d + timedelta(days=n)\<close>, as the job writes it.\<close>

definition plus_days :: "date \<Rightarrow> int \<Rightarrow> error + date" where
  "plus_days d n =
     (case timedelta n of
        Inl err \<Rightarrow> Inl err
      | Inr delta \<Rightarrow> date_add d delta)"

subsection \<open>The data model\<close>

text \<open>The columns of \<^verbatim>\<open>Product\<close> and \<^verbatim>\<open>Branch\<close> that the jobs read.\<close>

record product =
  p_id :: int
  p_name :: string

record branch =
  br_id :: int
  br_name :: string

text \<open>\<^verbatim>\<open>Batch\<close>: \<open>b_id\<close> is the primary key \<^verbatim>\<open>id\<close>; \<open>b_product_id\<close> and \<open>b_branch_id\<close>
  are the foreign keys \<^verbatim>\<open>product_id\<close> and \<^verbatim>\<open>branch_id\<close>.\<close>

record batch =
  b_id :: int
  batch_number :: string
  b_product_id :: int
  b_branch_id :: int
  current_quantity :: int
  expiry_date :: date
  is_active :: bool
  is_expired :: bool

text \<open>\<^verbatim>\<open>Alert\<close>: the columns the jobs set or query. The level, type and status columns
  are strings in the source.\<close>

record alert =
  batch_id :: int
  branch_id :: int
  alert_level :: string
  alert_type :: string
  message :: string
  days_to_expiry :: "int option"
  status :: string
  created_at :: timestamp

record db =
  batches :: "batch list"
  products :: "int \<rightharpoonup> product"
  branches :: "int \<rightharpoonup> branch"
  alerts :: "alert list"

text \<open>\<^verbatim>\<open>Settings\<close>: the two thresholds of the expiry job. A field keeps its default
  unless the environment gives a value for its name; nothing else is checked.\<close>

record settings =
  EXPIRY_WARNING_DAYS :: int
  EXPIRY_CRITICAL_DAYS :: int

definition Settings :: "(string \<rightharpoonup> int) \<Rightarrow> settings" where
  "Settings environ =
     \<lparr> EXPIRY_WARNING_DAYS =
         (case environ ''EXPIRY_WARNING_DAYS'' of None \<Rightarrow> 5 | Some v \<Rightarrow> v),
       EXPIRY_CRITICAL_DAYS =
         (case environ ''EXPIRY_CRITICAL_DAYS'' of None \<Rightarrow> 1 | Some v \<Rightarrow> v) \<rparr>"

subsection \<open>Failures and the environment of a pass\<close>

text \<open>The statements a pass sends to the data store.\<close>

datatype db_op =
    Select_Batches
  | Select_Alert int string
  | Select_Expired
  | Select_Low_Stock
  | Select_Pending_Alert int
  | Commit

text \<open>The environment says where the data store raises (\<open>Some msg\<close>), whether the
  constructor of the notification service raises, and for which calls its method
  \<^verbatim>\<open>send_expiry_alert\<close> raises.\<close>

record env =
  db_raises :: "db_op \<Rightarrow> string option"
  service_raises :: "string option"
  notify_raises :: "branch \<Rightarrow> product \<Rightarrow> batch \<Rightarrow> int \<Rightarrow> string \<Rightarrow> string option"

datatype log_record = INFO string | ERROR string

text \<open>The state of a running pass: the rows as the open transaction sees them (a row
  added to the session is flushed before the next query), the two counters and the log.
  A pass begins on the committed rows, with its first log line.\<close>

record pass_state =
  tx :: db
  alerts_created :: nat
  notifications_sent :: nat
  logged :: "log_record list"

definition begin_pass :: "string \<Rightarrow> db \<Rightarrow> pass_state" where
  "begin_pass line d =
     \<lparr> tx = d, alerts_created = 0, notifications_sent = 0, logged = [INFO line] \<rparr>"

fun scalar_one_or_none :: "'a list \<Rightarrow> error + 'a option" where
  "scalar_one_or_none [] = Inr None"
| "scalar_one_or_none [x] = Inr (Some x)"
| "scalar_one_or_none (x # y # zs) = Inl MultipleResultsFound"

subsection \<open>The expiry job\<close>

type_synonym row = "batch \<times> product \<times> branch"

text \<open>The inner joins of a batch with its product and its branch.\<close>

definition join_row :: "db \<Rightarrow> batch \<Rightarrow> row option" where
  "join_row d b =
     (case products d (b_product_id b) of
        None \<Rightarrow> None
      | Some p \<Rightarrow>
          (case branches d (b_branch_id b) of
             None \<Rightarrow> None
           | Some r \<Rightarrow> Some (b, p, r)))"

text \<open>The first query: the batches expiring soon.\<close>

definition batches_to_alert :: "date \<Rightarrow> date \<Rightarrow> db \<Rightarrow> row list" where
  "batches_to_alert today warning_date d =
     List.map_filter (join_row d)
       (filter (\<lambda>b. is_active b = True \<and> expiry_date b > today
                     \<and> expiry_date b \<le> warning_date \<and> current_quantity b > 0)
          (batches d))"

text \<open>The level, the type and the message of the alert for a candidate.\<close>

definition alert_fields :: "settings \<Rightarrow> row \<Rightarrow> int \<Rightarrow> string \<times> string \<times> string" where
  "alert_fields cfg rw days_remaining =
     (case rw of (b, p, r) \<Rightarrow>
        if days_remaining \<le> EXPIRY_CRITICAL_DAYS cfg then
          (''critical'', ''expiry_critical'',
           ''CRITICAL: '' @ p_name p @ '' (Batch: '' @ batch_number b @ '') ''
           @ ''expires in '' @ str_int days_remaining @ '' day(s)! ''
           @ str_int (current_quantity b) @ '' units remaining.'')
        else
          (''warning'', ''expiry_warning'',
           ''WARNING: '' @ p_name p @ '' (Batch: '' @ batch_number b @ '') ''
           @ ''expires in '' @ str_int days_remaining @ '' days. ''
           @ str_int (current_quantity b) @ '' units remaining.''))"

text \<open>The deduplication query of the expiry job: \<^verbatim>\<open>Alert.created_at >= today\<close> compares
  the creation time with the date \<^verbatim>\<open>today\<close>, cast to a timestamp.\<close>

definition existing_alert :: "int \<Rightarrow> db \<Rightarrow> int \<Rightarrow> string \<Rightarrow> date \<Rightarrow> alert list" where
  "existing_alert offset d bid atype today =
     filter (\<lambda>a. batch_id a = bid \<and> alert_type a = atype
                 \<and> created_at a \<ge> cast_date offset today)
       (alerts d)"

text \<open>\<^verbatim>\<open>db.add(new_alert)\<close>; the row gets its creation time from the server.\<close>

definition db_add :: "alert \<Rightarrow> db \<Rightarrow> db" where
  "db_add a d = d\<lparr>alerts := alerts d @ [a]\<rparr>"

text \<open>\<^verbatim>\<open>NotificationService.send_expiry_alert\<close>: it logs that the notification is
  prepared, or logs the exception and raises it again. The result is the exception, if
  any, and the log.\<close>

definition send_expiry_alert ::
  "env \<Rightarrow> branch \<Rightarrow> product \<Rightarrow> batch \<Rightarrow> int \<Rightarrow> string \<Rightarrow> log_record list
    \<Rightarrow> string option \<times> log_record list" where
  "send_expiry_alert e r p b days_remaining level lg =
     (case notify_raises e r p b days_remaining level of
        None \<Rightarrow>
          (None,
           lg @ [INFO (''Alert notification prepared for '' @ br_name r @ '': ''
                       @ p_name p @ '' expires in '' @ str_int days_remaining @ '' days'')])
      | Some msg \<Rightarrow>
          (Some msg, lg @ [ERROR (''Error sending notification: '' @ msg)]))"

text \<open>The inner \<^verbatim>\<open>try\<close> of the loop: the service is constructed and called; an
  exception of either is logged and the loop goes on.\<close>

definition try_send_notification ::
  "env \<Rightarrow> branch \<Rightarrow> product \<Rightarrow> batch \<Rightarrow> int \<Rightarrow> string \<Rightarrow> pass_state \<Rightarrow> pass_state" where
  "try_send_notification e r p b days_remaining level st =
     (case service_raises e of
        Some msg \<Rightarrow>
          st\<lparr>logged := logged st @ [ERROR (''Failed to send notification: '' @ msg)]\<rparr>
      | None \<Rightarrow>
          (case send_expiry_alert e r p b days_remaining level (logged st) of
             (None, lg) \<Rightarrow>
               st\<lparr>notifications_sent := notifications_sent st + 1, logged := lg\<rparr>
           | (Some msg, lg) \<Rightarrow>
               st\<lparr>logged := lg @ [ERROR (''Failed to send notification: '' @ msg)]\<rparr>))"

text \<open>The body of the loop over the candidates. The new row is built from the date of
  the process and gets its creation time from the server.\<close>

definition new_expiry_alert :: "settings \<Rightarrow> clock \<Rightarrow> row \<Rightarrow> alert" where
  "new_expiry_alert cfg clk rw =
     (case rw of (b, p, r) \<Rightarrow>
        let days_remaining = expiry_date b - local_date clk in
        case alert_fields cfg rw days_remaining of (level, atype, msg) \<Rightarrow>
          \<lparr> batch_id = b_id b, branch_id = br_id r, alert_level = level,
            alert_type = atype, message = msg, days_to_expiry = Some days_remaining,
            status = ''pending'', created_at = server_now clk \<rparr>)"

definition alert_batch :: "env \<Rightarrow> settings \<Rightarrow> clock \<Rightarrow> row \<Rightarrow> pass_state
    \<Rightarrow> error + pass_state" where
  "alert_batch e cfg clk rw st =
     (case rw of (b, p, r) \<Rightarrow>
        let today = local_date clk;
            days_remaining = expiry_date b - today in
        case alert_fields cfg rw days_remaining of (level, atype, msg) \<Rightarrow>
          (case db_raises e (Select_Alert (b_id b) atype) of
             Some m \<Rightarrow> Inl (Raised m)
           | None \<Rightarrow>
               (case scalar_one_or_none
                       (existing_alert (cast_offset clk) (tx st) (b_id b) atype today) of
                  Inl err \<Rightarrow> Inl err
                | Inr (Some a) \<Rightarrow> Inr st
                | Inr None \<Rightarrow>
                    Inr (try_send_notification e r p b days_remaining level
                           (st\<lparr>tx := db_add (new_expiry_alert cfg clk rw) (tx st),
                               alerts_created := alerts_created st + 1\<rparr>)))))"

text \<open>The loop: an exception leaves it with the state reached so far.\<close>

fun alert_batches :: "env \<Rightarrow> settings \<Rightarrow> clock \<Rightarrow> row list \<Rightarrow> pass_state
    \<Rightarrow> (error \<times> pass_state) + pass_state" where
  "alert_batches e cfg clk [] st = Inr st"
| "alert_batches e cfg clk (rw # rws) st =
     (case alert_batch e cfg clk rw st of
        Inl err \<Rightarrow> Inl (err, st)
      | Inr st' \<Rightarrow> alert_batches e cfg clk rws st')"

text \<open>The second query, and the transition of the rows it returns.\<close>

definition expired_batches :: "date \<Rightarrow> db \<Rightarrow> batch list" where
  "expired_batches today d =
     filter (\<lambda>b. is_active b = True \<and> expiry_date b \<le> today \<and> is_expired b = False)
       (batches d)"

definition mark_expired :: "date \<Rightarrow> db \<Rightarrow> db" where
  "mark_expired today d =
     d\<lparr>batches :=
         map (\<lambda>b. if b \<in> set (expired_batches today d)
                  then b\<lparr>is_expired := True, is_active := False\<rparr> else b)
           (batches d)\<rparr>"

text \<open>The body of the \<^verbatim>\<open>try\<close>, up to and including the commit. The result is the
  state to commit and the number of batches marked, or the exception and the state at
  which it was raised. The two dates are computed first, inside the \<^verbatim>\<open>try\<close>; the
  second one is not used afterwards.\<close>

definition expiry_pass :: "env \<Rightarrow> settings \<Rightarrow> clock \<Rightarrow> pass_state
    \<Rightarrow> (error \<times> pass_state) + (pass_state \<times> nat)" where
  "expiry_pass e cfg clk st0 =
     (let today = local_date clk in
      case plus_days today (EXPIRY_WARNING_DAYS cfg) of
        Inl err \<Rightarrow> Inl (err, st0)
      | Inr warning_date \<Rightarrow>
          (case plus_days today (EXPIRY_CRITICAL_DAYS cfg) of
             Inl err \<Rightarrow> Inl (err, st0)
           | Inr critical_date \<Rightarrow>
               (case db_raises e Select_Batches of
                  Some m \<Rightarrow> Inl (Raised m, st0)
                | None \<Rightarrow>
                    (case alert_batches e cfg clk
                            (batches_to_alert today warning_date (tx st0)) st0 of
                       Inl err \<Rightarrow> Inl err
                     | Inr st \<Rightarrow>
                         (case db_raises e Select_Expired of
                            Some m \<Rightarrow> Inl (Raised m, st)
                          | None \<Rightarrow>
                              (let expired_count = length (expired_batches today (tx st));
                                   st' = st\<lparr>tx := mark_expired today (tx st)\<rparr>
                               in (case db_raises e Commit of
                                     Some m \<Rightarrow> Inl (Raised m, st')
                                   | None \<Rightarrow> Inr (st', expired_count))))))))"

text \<open>The job: the committed rows after the invocation, and its log. On an exception
  the transaction is rolled back, so the rows are those before the invocation.\<close>

definition check_expiring_batches :: "env \<Rightarrow> settings \<Rightarrow> clock \<Rightarrow> db
    \<Rightarrow> db \<times> log_record list" where
  "check_expiring_batches e cfg clk d =
     (let st0 = begin_pass ''Starting expiry check task...'' d
      in case expiry_pass e cfg clk st0 of
           Inr (st, expired_count) \<Rightarrow>
             (tx st,
              logged st @
                [INFO (''Expiry check completed: ''
                       @ str_int (int (alerts_created st)) @ '' alerts created, ''
                       @ str_int (int (notifications_sent st)) @ '' notifications sent, ''
                       @ str_int (int expired_count) @ '' batches marked as expired'')])
         | Inl (err, st) \<Rightarrow>
             (d, logged st @ [ERROR (''Error in expiry check task: '' @ error_str err)]))"

subsection \<open>The low-stock job\<close>

definition LOW_STOCK_THRESHOLD :: int where
  "LOW_STOCK_THRESHOLD = 5"

definition low_stock_batches :: "db \<Rightarrow> row list" where
  "low_stock_batches d =
     List.map_filter (join_row d)
       (filter (\<lambda>b. is_active b = True \<and> current_quantity b > 0
                     \<and> current_quantity b \<le> LOW_STOCK_THRESHOLD)
          (batches d))"

text \<open>The deduplication query of the low-stock job.\<close>

definition pending_low_stock :: "db \<Rightarrow> int \<Rightarrow> alert list" where
  "pending_low_stock d bid =
     filter (\<lambda>a. batch_id a = bid \<and> alert_type a = ''low_stock'' \<and> status a = ''pending'')
       (alerts d)"

definition new_low_stock_alert :: "timestamp \<Rightarrow> row \<Rightarrow> alert" where
  "new_low_stock_alert now rw =
     (case rw of (b, p, r) \<Rightarrow>
        \<lparr> batch_id = b_id b, branch_id = br_id r, alert_level = ''info'',
          alert_type = ''low_stock'',
          message = ''LOW STOCK: '' @ p_name p @ '' (Batch: '' @ batch_number b @ '') ''
                    @ ''has only '' @ str_int (current_quantity b) @ '' units remaining.'',
          days_to_expiry = None, status = ''pending'', created_at = now \<rparr>)"

definition alert_low_stock :: "env \<Rightarrow> timestamp \<Rightarrow> row \<Rightarrow> pass_state \<Rightarrow> error + pass_state" where
  "alert_low_stock e now rw st =
     (case rw of (b, p, r) \<Rightarrow>
        (case db_raises e (Select_Pending_Alert (b_id b)) of
           Some m \<Rightarrow> Inl (Raised m)
         | None \<Rightarrow>
             (case scalar_one_or_none (pending_low_stock (tx st) (b_id b)) of
                Inl err \<Rightarrow> Inl err
              | Inr (Some a) \<Rightarrow> Inr st
              | Inr None \<Rightarrow>
                  Inr (st\<lparr>tx := db_add (new_low_stock_alert now rw) (tx st),
                          alerts_created := alerts_created st + 1\<rparr>))))"

fun alert_low_stocks :: "env \<Rightarrow> timestamp \<Rightarrow> row list \<Rightarrow> pass_state
    \<Rightarrow> (error \<times> pass_state) + pass_state" where
  "alert_low_stocks e now [] st = Inr st"
| "alert_low_stocks e now (rw # rws) st =
     (case alert_low_stock e now rw st of
        Inl err \<Rightarrow> Inl (err, st)
      | Inr st' \<Rightarrow> alert_low_stocks e now rws st')"

definition low_stock_pass :: "env \<Rightarrow> timestamp \<Rightarrow> pass_state
    \<Rightarrow> (error \<times> pass_state) + pass_state" where
  "low_stock_pass e now st0 =
     (case db_raises e Select_Low_Stock of
        Some m \<Rightarrow> Inl (Raised m, st0)
      | None \<Rightarrow>
          (case alert_low_stocks e now (low_stock_batches (tx st0)) st0 of
             Inl err \<Rightarrow> Inl err
           | Inr st \<Rightarrow>
               (case db_raises e Commit of
                  Some m \<Rightarrow> Inl (Raised m, st)
                | None \<Rightarrow> Inr st)))"

definition check_low_stock :: "env \<Rightarrow> timestamp \<Rightarrow> db \<Rightarrow> db \<times> log_record list" where
  "check_low_stock e now d =
     (let st0 = begin_pass ''Starting low stock check...'' d
      in case low_stock_pass e now st0 of
           Inr st \<Rightarrow>
             (tx st,
              logged st @
                [INFO (''Low stock check completed: ''
                       @ str_int (int (alerts_created st)) @ '' alerts created'')])
         | Inl (err, st) \<Rightarrow>
             (d, logged st @ [ERROR (''Error in low stock check: '' @ error_str err)]))"

subsection \<open>The classifier as the specification words it\<close>

datatype tier = Tier_none | Tier_warning | Tier_critical | Tier_expired

text \<open>The four bands of the specification, read in the order they are listed.\<close>

definition spec_tier :: "int \<Rightarrow> int \<Rightarrow> date \<Rightarrow> date \<Rightarrow> tier" where
  "spec_tier warning_days critical_days today e =
     (if e \<le> today then Tier_expired
      else if today < e \<and> e \<le> today + critical_days then Tier_critical
      else if today + critical_days < e \<and> e \<le> today + warning_days then Tier_warning
      else Tier_none)"

subsection \<open>Notions used to state the properties\<close>

text \<open>For the expiry job: whether \<open>n\<close> days can be added to a date; the alert type that
  the loop derives for a candidate; the rows that its deduplication query returns for
  the candidate; the candidates of a pass, which are the rows of the first query when
  the two dates of the pass can be computed, and none otherwise; among given rows, those
  for which the deduplication query returns nothing.\<close>

definition in_range :: "date \<Rightarrow> int \<Rightarrow> bool" where
  "in_range d n \<longleftrightarrow> - 999999999 \<le> n \<and> n \<le> 999999999 \<and> 0 < d + n \<and> d + n \<le> 3652059"

definition tier_type :: "settings \<Rightarrow> clock \<Rightarrow> row \<Rightarrow> string" where
  "tier_type cfg clk rw =
     fst (snd (alert_fields cfg rw (expiry_date (fst rw) - local_date clk)))"

definition todays_alerts :: "settings \<Rightarrow> clock \<Rightarrow> db \<Rightarrow> row \<Rightarrow> alert list" where
  "todays_alerts cfg clk d rw =
     existing_alert (cast_offset clk) d (b_id (fst rw)) (tier_type cfg clk rw) (local_date clk)"

definition candidates :: "settings \<Rightarrow> clock \<Rightarrow> db \<Rightarrow> row list" where
  "candidates cfg clk d =
     (case plus_days (local_date clk) (EXPIRY_WARNING_DAYS cfg) of
        Inl err \<Rightarrow> []
      | Inr warning_date \<Rightarrow>
          (case plus_days (local_date clk) (EXPIRY_CRITICAL_DAYS cfg) of
             Inl err \<Rightarrow> []
           | Inr critical_date \<Rightarrow> batches_to_alert (local_date clk) warning_date d))"

definition fresh :: "settings \<Rightarrow> clock \<Rightarrow> db \<Rightarrow> row list \<Rightarrow> row list" where
  "fresh cfg clk d rows = filter (\<lambda>rw. todays_alerts cfg clk d rw = []) rows"

text \<open>The state after the loop has created the alert of a candidate and notified, and
  after it has done so for a list of candidates; the transition of one batch on a given
  day; what the notification service answers for a candidate (\<open>Some msg\<close>: its
  constructor or its method raises).\<close>

definition alerted :: "env \<Rightarrow> settings \<Rightarrow> clock \<Rightarrow> row \<Rightarrow> pass_state \<Rightarrow> pass_state" where
  "alerted e cfg clk rw st =
     try_send_notification e (snd (snd rw)) (fst (snd rw)) (fst rw)
       (expiry_date (fst rw) - local_date clk)
       (fst (alert_fields cfg rw (expiry_date (fst rw) - local_date clk)))
       (st\<lparr>tx := db_add (new_expiry_alert cfg clk rw) (tx st),
           alerts_created := alerts_created st + 1\<rparr>)"

definition created :: "env \<Rightarrow> settings \<Rightarrow> clock \<Rightarrow> row list \<Rightarrow> pass_state \<Rightarrow> pass_state" where
  "created e cfg clk rows st = foldl (\<lambda>s rw. alerted e cfg clk rw s) st rows"

definition expire :: "date \<Rightarrow> batch \<Rightarrow> batch" where
  "expire today b =
     (if is_active b \<and> expiry_date b \<le> today \<and> \<not> is_expired b
      then b\<lparr>is_expired := True, is_active := False\<rparr> else b)"

definition gateway_error :: "env \<Rightarrow> settings \<Rightarrow> clock \<Rightarrow> row \<Rightarrow> string option" where
  "gateway_error e cfg clk rw =
     (case service_raises e of
        Some msg \<Rightarrow> Some msg
      | None \<Rightarrow>
          notify_raises e (snd (snd rw)) (fst (snd rw)) (fst rw)
            (expiry_date (fst rw) - local_date clk)
            (fst (alert_fields cfg rw (expiry_date (fst rw) - local_date clk))))"

text \<open>For the low-stock job: the state after its loop has created the alert of a
  candidate, or of a list of candidates, and the candidates without a pending low-stock
  alert.\<close>

definition low_alerted :: "timestamp \<Rightarrow> row \<Rightarrow> pass_state \<Rightarrow> pass_state" where
  "low_alerted now rw st =
     st\<lparr>tx := db_add (new_low_stock_alert now rw) (tx st),
        alerts_created := alerts_created st + 1\<rparr>"

definition low_created :: "timestamp \<Rightarrow> row list \<Rightarrow> pass_state \<Rightarrow> pass_state" where
  "low_created now rows st = foldl (\<lambda>s rw. low_alerted now rw s) st rows"

definition unalerted :: "db \<Rightarrow> row list \<Rightarrow> row list" where
  "unalerted d rows = filter (\<lambda>rw. pending_low_stock d (b_id (fst rw)) = []) rows"

subsection \<open>A small store\<close>

text \<open>Concrete rows, clocks, environments and settings on which the properties below
  are evaluated. The dates are those of June 2024; \<open>noon d\<close> is twelve hours into day
  \<open>d\<close> in UTC, and \<open>at_noon d\<close> are the clocks of a pass run then, process, server and
  cast all in UTC.\<close>

definition milk :: product where
  "milk = \<lparr> p_id = 1, p_name = ''Milk'' \<rparr>"

definition depot :: branch where
  "depot = \<lparr> br_id = 1, br_name = ''Depot'' \<rparr>"

definition lot :: "int \<Rightarrow> int \<Rightarrow> date \<Rightarrow> batch" where
  "lot i q ex =
     \<lparr> b_id = i, batch_number = ''L'', b_product_id = 1, b_branch_id = 1,
       current_quantity = q, expiry_date = ex, is_active = True, is_expired = False \<rparr>"

definition june :: "int \<Rightarrow> date" where
  "june day = ymd2ord 2024 6 day"

definition noon :: "date \<Rightarrow> timestamp" where
  "noon d = d * 86400 + 43200"

definition at_noon :: "date \<Rightarrow> clock" where
  "at_noon d = \<lparr> local_date = d, server_now = noon d, cast_offset = 0 \<rparr>"

text \<open>The clocks of a pass run when the date of the process is already 2024-06-10 (its
  time zone is ahead of UTC) while the server's time is 23:00 UTC of the day before.\<close>

definition early :: clock where
  "early = \<lparr> local_date = june 10, server_now = june 10 * 86400 - 3600, cast_offset = 0 \<rparr>"

definition shelf :: db where
  "shelf =
     \<lparr> batches = [lot 1 3 (june 11), lot 2 4 (june 15), lot 3 9 (june 9), lot 4 0 (june 12)],
       products = [1 \<mapsto> milk], branches = [1 \<mapsto> depot], alerts = [] \<rparr>"

text \<open>The same store after two passes that overlapped: the first batch has two alerts
  of its type, both created today.\<close>

definition twin :: alert where
  "twin = new_expiry_alert (Settings Map.empty) (at_noon (june 10))
            (lot 1 3 (june 11), milk, depot)"

definition crowded :: db where
  "crowded = shelf\<lparr>alerts := [twin, twin]\<rparr>"

text \<open>Three environments: nothing raises; the data store raises at the commit; the
  notification service raises at every call.\<close>

definition calm :: env where
  "calm = \<lparr> db_raises = (\<lambda>op. None), service_raises = None,
            notify_raises = (\<lambda>r p b n lv. None) \<rparr>"

definition stormy :: env where
  "stormy = calm\<lparr>db_raises := (\<lambda>op. if op = Commit then Some ''connection lost'' else None)\<rparr>"

definition mute :: env where
  "mute = calm\<lparr>notify_raises := (\<lambda>r p b n lv. Some ''SMTP down'')\<rparr>"

text \<open>A store for the low-stock job: five batches of quantities 3, 4, 5, 6 and 7, an
  old pending low-stock alert for the first and an acknowledged one for the second; and
  the same store with two pending low-stock alerts for the first batch.\<close>

definition old_alert :: "string \<Rightarrow> int \<Rightarrow> alert" where
  "old_alert st bid =
     \<lparr> batch_id = bid, branch_id = 1, alert_level = ''info'', alert_type = ''low_stock'',
       message = ''LOW STOCK'', days_to_expiry = None, status = st,
       created_at = noon (june 1) \<rparr>"

definition pantry :: db where
  "pantry =
     \<lparr> batches = [lot 1 3 (june 30), lot 2 4 (june 30), lot 5 5 (june 30), lot 6 6 (june 30),
                  lot 7 7 (june 30)],
       products = [1 \<mapsto> milk], branches = [1 \<mapsto> depot],
       alerts = [old_alert ''pending'' 1, old_alert ''acknowledged'' 2] \<rparr>"

definition glut :: db where
  "glut = pantry\<lparr>alerts := [old_alert ''pending'' 1, old_alert ''pending'' 1]\<rparr>"

text \<open>The settings when the environment sets the critical threshold to 7 and nothing
  else.\<close>

definition swapped :: settings where
  "swapped = Settings [''EXPIRY_CRITICAL_DAYS'' \<mapsto> 7]"

text \<open>The settings when the environment sets the critical threshold to 3000000 days,
  some 8200 years.\<close>

definition far :: settings where
  "far = Settings [''EXPIRY_CRITICAL_DAYS'' \<mapsto> 3000000]"

section \<open>Properties\<close>

subsection \<open>Days, queries and the fields of a new alert\<close>

lemma plus_days_in_range: "in_range d n \<Longrightarrow> plus_days d n = Inr (d + n)"
  by (simp add: in_range_def plus_days_def timedelta_def date_add_def MAXORDINAL_def)

lemma plus_days_Inr: "plus_days d n = Inr x \<longleftrightarrow> in_range d n \<and> x = d + n"
  by (auto simp: in_range_def plus_days_def timedelta_def date_add_def MAXORDINAL_def)

lemma plus_days_out_of_range: "\<not> in_range d n \<Longrightarrow> \<exists>msg. plus_days d n = Inl (OverflowError msg)"
  by (auto simp: in_range_def plus_days_def timedelta_def date_add_def MAXORDINAL_def)

lemma candidates_in_range:
  assumes "in_range (local_date clk) (EXPIRY_WARNING_DAYS cfg)"
    and "in_range (local_date clk) (EXPIRY_CRITICAL_DAYS cfg)"
  shows "candidates cfg clk d =
           batches_to_alert (local_date clk) (local_date clk + EXPIRY_WARNING_DAYS cfg) d"
  by (simp add: candidates_def plus_days_in_range [OF assms(1)] plus_days_in_range [OF assms(2)])

lemma candidates_out_of_range:
  assumes "\<not> (in_range (local_date clk) (EXPIRY_WARNING_DAYS cfg)
              \<and> in_range (local_date clk) (EXPIRY_CRITICAL_DAYS cfg))"
  shows "candidates cfg clk d = []"
  using assms plus_days_Inr
  by (auto simp: candidates_def split: sum.splits)

lemma candidates_cases:
  "candidates cfg clk d = []
   \<or> in_range (local_date clk) (EXPIRY_WARNING_DAYS cfg)
     \<and> in_range (local_date clk) (EXPIRY_CRITICAL_DAYS cfg)
     \<and> candidates cfg clk d =
         batches_to_alert (local_date clk) (local_date clk + EXPIRY_WARNING_DAYS cfg) d"
  using candidates_in_range [of clk cfg d] candidates_out_of_range [of clk cfg d] by blast

text \<open>A pass whose dates cannot be computed raises before its first query, whatever the
  environment; otherwise it is the two loops and the commit.\<close>

lemma expiry_pass_out_of_range:
  assumes "\<not> (in_range (local_date clk) (EXPIRY_WARNING_DAYS cfg)
              \<and> in_range (local_date clk) (EXPIRY_CRITICAL_DAYS cfg))"
  shows "\<exists>msg. \<forall>e. expiry_pass e cfg clk st0 = Inl (OverflowError msg, st0)"
proof (cases "in_range (local_date clk) (EXPIRY_WARNING_DAYS cfg)")
  case False
  from plus_days_out_of_range [OF this] show ?thesis
    by (auto simp: expiry_pass_def Let_def)
next
  case True
  then have "\<not> in_range (local_date clk) (EXPIRY_CRITICAL_DAYS cfg)" using assms by simp
  from plus_days_out_of_range [OF this] show ?thesis
    by (auto simp: expiry_pass_def Let_def plus_days_in_range [OF True])
qed

lemma expiry_pass_Inr_in_range:
  assumes "expiry_pass e cfg clk st0 = Inr y"
  shows "in_range (local_date clk) (EXPIRY_WARNING_DAYS cfg)"
    and "in_range (local_date clk) (EXPIRY_CRITICAL_DAYS cfg)"
proof -
  have "in_range (local_date clk) (EXPIRY_WARNING_DAYS cfg)
      \<and> in_range (local_date clk) (EXPIRY_CRITICAL_DAYS cfg)"
  proof (rule ccontr)
    assume "\<not> (in_range (local_date clk) (EXPIRY_WARNING_DAYS cfg)
      \<and> in_range (local_date clk) (EXPIRY_CRITICAL_DAYS cfg))"
    from expiry_pass_out_of_range [OF this, of st0] show False using assms by auto
  qed
  then show "in_range (local_date clk) (EXPIRY_WARNING_DAYS cfg)"
    and "in_range (local_date clk) (EXPIRY_CRITICAL_DAYS cfg)" by simp_all
qed

lemma mem_candidates_in_range:
  assumes "rw \<in> set (candidates cfg clk d)"
  shows "in_range (local_date clk) (EXPIRY_WARNING_DAYS cfg)"
    and "in_range (local_date clk) (EXPIRY_CRITICAL_DAYS cfg)"
proof -
  have "in_range (local_date clk) (EXPIRY_WARNING_DAYS cfg)
      \<and> in_range (local_date clk) (EXPIRY_CRITICAL_DAYS cfg)"
  proof (rule ccontr)
    assume "\<not> (in_range (local_date clk) (EXPIRY_WARNING_DAYS cfg)
      \<and> in_range (local_date clk) (EXPIRY_CRITICAL_DAYS cfg))"
    from candidates_out_of_range [OF this, of d] show False using assms by simp
  qed
  then show "in_range (local_date clk) (EXPIRY_WARNING_DAYS cfg)"
    and "in_range (local_date clk) (EXPIRY_CRITICAL_DAYS cfg)" by simp_all
qed

lemma expiry_pass_in_range:
  assumes "in_range (local_date clk) (EXPIRY_WARNING_DAYS cfg)"
    and "in_range (local_date clk) (EXPIRY_CRITICAL_DAYS cfg)"
  shows "expiry_pass e cfg clk st0 =
     (case db_raises e Select_Batches of
        Some m \<Rightarrow> Inl (Raised m, st0)
      | None \<Rightarrow>
         (case alert_batches e cfg clk (candidates cfg clk (tx st0)) st0 of
            Inl err \<Rightarrow> Inl err
          | Inr st \<Rightarrow>
              (case db_raises e Select_Expired of
                 Some m \<Rightarrow> Inl (Raised m, st)
               | None \<Rightarrow>
                   (case db_raises e Commit of
                      Some m \<Rightarrow> Inl (Raised m, st\<lparr>tx := mark_expired (local_date clk) (tx st)\<rparr>)
                    | None \<Rightarrow> Inr (st\<lparr>tx := mark_expired (local_date clk) (tx st)\<rparr>,
                                    length (expired_batches (local_date clk) (tx st)))))))"
  unfolding candidates_in_range [OF assms]
  by (simp add: expiry_pass_def Let_def plus_days_in_range [OF assms(1)]
      plus_days_in_range [OF assms(2)] split: option.splits sum.splits)

lemma set_map_filter: "set (List.map_filter f xs) = {y. \<exists>x\<in>set xs. f x = Some y}"
  by (induction xs) (auto simp: List.map_filter_simps split: option.splits)

lemma join_row_fst: "join_row d b = Some rw \<Longrightarrow> fst rw = b"
  by (auto simp: join_row_def split: option.splits)

lemma mem_batches_to_alert:
  "rw \<in> set (batches_to_alert today wd d) \<longleftrightarrow>
     (\<exists>b\<in>set (batches d). is_active b \<and> today < expiry_date b \<and> expiry_date b \<le> wd
        \<and> 0 < current_quantity b \<and> join_row d b = Some rw)"
  by (auto simp: batches_to_alert_def set_map_filter)

lemma mem_expired_batches:
  "b \<in> set (expired_batches today d) \<longleftrightarrow>
     b \<in> set (batches d) \<and> is_active b \<and> expiry_date b \<le> today \<and> \<not> is_expired b"
  by (auto simp: expired_batches_def)

lemma new_expiry_alert_simps:
  "batch_id (new_expiry_alert cfg clk rw) = b_id (fst rw)"
  "branch_id (new_expiry_alert cfg clk rw) = br_id (snd (snd rw))"
  "alert_type (new_expiry_alert cfg clk rw) = tier_type cfg clk rw"
  "days_to_expiry (new_expiry_alert cfg clk rw) = Some (expiry_date (fst rw) - local_date clk)"
  "status (new_expiry_alert cfg clk rw) = ''pending''"
  "created_at (new_expiry_alert cfg clk rw) = server_now clk"
  by (cases rw; simp add: new_expiry_alert_def tier_type_def alert_fields_def Let_def)+

lemma tier_type_eq:
  "tier_type cfg clk rw =
     (if expiry_date (fst rw) - local_date clk \<le> EXPIRY_CRITICAL_DAYS cfg
      then ''expiry_critical'' else ''expiry_warning'')"
  by (cases rw) (simp add: tier_type_def alert_fields_def)

lemma alert_level_new:
  "alert_level (new_expiry_alert cfg clk rw) =
     (if expiry_date (fst rw) - local_date clk \<le> EXPIRY_CRITICAL_DAYS cfg
      then ''critical'' else ''warning'')"
  by (cases rw) (simp add: new_expiry_alert_def alert_fields_def Let_def)

lemma alert_batch_eq:
  "alert_batch e cfg clk rw st =
     (case db_raises e (Select_Alert (b_id (fst rw)) (tier_type cfg clk rw)) of
        Some m \<Rightarrow> Inl (Raised m)
      | None \<Rightarrow>
          (case todays_alerts cfg clk (tx st) rw of
             [] \<Rightarrow> Inr (alerted e cfg clk rw st)
           | [a] \<Rightarrow> Inr st
           | _ \<Rightarrow> Inl MultipleResultsFound))"
proof -
  obtain b p r where rw: "rw = (b, p, r)" by (cases rw)
  obtain lv ty ms where
    af: "alert_fields cfg (b, p, r) (expiry_date b - local_date clk) = (lv, ty, ms)"
    by (cases "alert_fields cfg (b, p, r) (expiry_date b - local_date clk)")
  show ?thesis
  proof (cases "existing_alert (cast_offset clk) (tx st) (b_id b) ty (local_date clk)")
    case Nil
    then show ?thesis
      by (simp add: rw af alert_batch_def tier_type_def todays_alerts_def alerted_def
          split: option.splits)
  next
    case (Cons a as)
    then show ?thesis
      by (cases as)
        (simp_all add: rw af alert_batch_def tier_type_def todays_alerts_def alerted_def
          split: option.splits)
  qed
qed

lemma try_send_notification_simps [simp]:
  "tx (try_send_notification e r p b dr lv st) = tx st"
  "alerts_created (try_send_notification e r p b dr lv st) = alerts_created st"
  by (simp_all add: try_send_notification_def send_expiry_alert_def split: option.splits)

lemma tx_alerted [simp]:
  "tx (alerted e cfg clk rw st) = db_add (new_expiry_alert cfg clk rw) (tx st)"
  by (simp add: alerted_def)

lemma db_add_simps [simp]:
  "batches (db_add a d) = batches d"
  "products (db_add a d) = products d"
  "branches (db_add a d) = branches d"
  "alerts (db_add a d) = alerts d @ [a]"
  by (simp_all add: db_add_def)

lemma todays_alerts_append:
  "alerts d' = alerts d @ news \<Longrightarrow>
   todays_alerts cfg clk d' rw =
     todays_alerts cfg clk d rw
     @ filter (\<lambda>a. batch_id a = b_id (fst rw) \<and> alert_type a = tier_type cfg clk rw
                    \<and> cast_date (cast_offset clk) (local_date clk) \<le> created_at a) news"
  by (simp add: todays_alerts_def existing_alert_def)

lemma todays_alerts_db_add_other:
  "batch_id a \<noteq> b_id (fst rw) \<Longrightarrow>
   todays_alerts cfg clk (db_add a d) rw = todays_alerts cfg clk d rw"
  by (simp add: todays_alerts_def existing_alert_def)

text \<open>The step, case by case.\<close>

lemma alert_batch_Inr:
  assumes "alert_batch e cfg clk rw st = Inr st'"
  shows "(todays_alerts cfg clk (tx st) rw = [] \<and> st' = alerted e cfg clk rw st)
       \<or> (todays_alerts cfg clk (tx st) rw \<noteq> [] \<and> st' = st)"
  using assms unfolding alert_batch_eq
  by (auto split: option.splits list.splits)

lemma alert_batch_Inl:
  assumes "alert_batch e cfg clk rw st = Inl err"
  shows "(\<exists>m. db_raises e (Select_Alert (b_id (fst rw)) (tier_type cfg clk rw)) = Some m
              \<and> err = Raised m)
       \<or> (2 \<le> length (todays_alerts cfg clk (tx st) rw) \<and> err = MultipleResultsFound)"
  using assms unfolding alert_batch_eq
  by (auto split: option.splits list.splits)

lemma alert_batch_many:
  assumes "2 \<le> length (todays_alerts cfg clk (tx st) rw)"
  shows "\<exists>err. alert_batch e cfg clk rw st = Inl err"
  using assms unfolding alert_batch_eq
  by (auto split: option.splits list.splits)

lemma alert_batch_grows:
  assumes "alert_batch e cfg clk rw st = Inr st'"
  shows "length (todays_alerts cfg clk (tx st) rw') \<le> length (todays_alerts cfg clk (tx st') rw')"
  using alert_batch_Inr [OF assms]
  by (auto simp: todays_alerts_def existing_alert_def)

lemma alert_batches_many:
  assumes "rw \<in> set rows" and "2 \<le> length (todays_alerts cfg clk (tx st) rw)"
  shows "\<exists>err st'. alert_batches e cfg clk rows st = Inl (err, st')"
  using assms
proof (induction rows arbitrary: st)
  case Nil
  then show ?case by simp
next
  case (Cons r rows)
  show ?case
  proof (cases "alert_batch e cfg clk r st")
    case (Inl err)
    then show ?thesis by simp
  next
    case (Inr st1)
    have "r \<noteq> rw" using alert_batch_many [OF Cons.prems(2), of e] Inr by auto
    then have mem: "rw \<in> set rows" using Cons.prems(1) by simp
    have "2 \<le> length (todays_alerts cfg clk (tx st1) rw)"
      using alert_batch_grows [OF Inr, of rw] Cons.prems(2) by linarith
    from Cons.IH [OF mem this] show ?thesis using Inr by simp
  qed
qed

lemma alert_batches_error:
  assumes "\<forall>op. db_raises e op = None"
    and "alert_batches e cfg clk rows st = Inl (err, st')"
  shows "err = MultipleResultsFound"
  using assms(2)
proof (induction rows arbitrary: st)
  case Nil
  then show ?case by simp
next
  case (Cons r rows)
  show ?case
  proof (cases "alert_batch e cfg clk r st")
    case (Inl x)
    then have "x = MultipleResultsFound"
      using alert_batch_Inl [OF Inl] assms(1) by auto
    then show ?thesis using Cons.prems Inl by simp
  next
    case (Inr st1)
    then show ?thesis using Cons by simp
  qed
qed

text \<open>When every candidate already has an alert, the loop adds nothing.\<close>

lemma alert_batches_nothing_new:
  assumes "\<forall>rw\<in>set rows. todays_alerts cfg clk (tx st) rw \<noteq> []"
  shows "alert_batches e cfg clk rows st = Inr st
       \<or> (\<exists>err. alert_batches e cfg clk rows st = Inl (err, st))"
  using assms
proof (induction rows)
  case Nil
  then show ?case by simp
next
  case (Cons r rows)
  show ?case
  proof (cases "alert_batch e cfg clk r st")
    case (Inl err)
    then show ?thesis by simp
  next
    case (Inr st1)
    then have "st1 = st" using alert_batch_Inr [OF Inr] Cons.prems by auto
    then show ?thesis using Cons Inr by simp
  qed
qed

subsection \<open>A pass that meets no failure\<close>

lemma created_simps [simp]:
  "created e cfg clk [] st = st"
  "created e cfg clk (rw # rows) st =
     created e cfg clk rows (alerted e cfg clk rw st)"
  by (simp_all add: created_def)

lemma tx_created:
  "tx (created e cfg clk rows st) =
     (tx st)\<lparr>alerts := alerts (tx st) @ map (new_expiry_alert cfg clk) rows\<rparr>"
  by (induction rows arbitrary: st) (simp_all add: db_add_def)

lemma alert_batches_ok:
  assumes rel: "\<forall>bid ty. db_raises e (Select_Alert bid ty) = None"
    and dist: "distinct (map (\<lambda>rw. b_id (fst rw)) rows)"
    and one: "\<forall>rw\<in>set rows. length (todays_alerts cfg clk d0 rw) \<le> 1"
    and same: "\<forall>rw\<in>set rows. todays_alerts cfg clk (tx st) rw = todays_alerts cfg clk d0 rw"
  shows "alert_batches e cfg clk rows st =
           Inr (created e cfg clk (fresh cfg clk d0 rows) st)"
  using dist one same
proof (induction rows arbitrary: st)
  case Nil
  then show ?case by (simp add: fresh_def)
next
  case (Cons r rows)
  have d': "distinct (map (\<lambda>rw. b_id (fst rw)) rows)"
    and o': "\<forall>rw\<in>set rows. length (todays_alerts cfg clk d0 rw) \<le> 1"
    using Cons.prems by simp_all
  have "b_id (fst r) \<notin> (\<lambda>rw. b_id (fst rw)) ` set rows"
    using Cons.prems(1) by simp
  then have other: "\<forall>rw\<in>set rows. b_id (fst rw) \<noteq> b_id (fst r)"
    by (metis imageI)
  have r0: "todays_alerts cfg clk (tx st) r = todays_alerts cfg clk d0 r"
    using Cons.prems(3) by simp
  show ?case
  proof (cases "todays_alerts cfg clk d0 r")
    case Nil
    let ?st1 = "alerted e cfg clk r st"
    have step: "alert_batch e cfg clk r st = Inr ?st1"
      unfolding alert_batch_eq using rel r0 Nil by simp
    have "\<forall>rw\<in>set rows. todays_alerts cfg clk (tx ?st1) rw = todays_alerts cfg clk d0 rw"
    proof
      fix rw assume rw: "rw \<in> set rows"
      then have "batch_id (new_expiry_alert cfg clk r) \<noteq> b_id (fst rw)"
        using other by (simp add: new_expiry_alert_simps) metis
      then show "todays_alerts cfg clk (tx ?st1) rw = todays_alerts cfg clk d0 rw"
        using rw Cons.prems(3) by (simp add: todays_alerts_db_add_other)
    qed
    from Cons.IH [OF d' o' this] show ?thesis
      using step Nil by (simp add: fresh_def)
  next
    case (Cons a as)
    then have as: "as = []" using Cons.prems(2) by simp
    have step: "alert_batch e cfg clk r st = Inr st"
      unfolding alert_batch_eq using rel r0 Cons as by simp
    have "\<forall>rw\<in>set rows. todays_alerts cfg clk (tx st) rw = todays_alerts cfg clk d0 rw"
      using Cons.prems(3) by simp
    from Cons.IH [OF d' o' this] show ?thesis
      using step Cons by (simp add: fresh_def)
  qed
qed

lemma map_fst_map_filter_join:
  "map fst (List.map_filter (join_row d) xs) = filter (\<lambda>b. join_row d b \<noteq> None) xs"
  by (induction xs) (auto simp: List.map_filter_simps join_row_fst split: option.splits)

lemma distinct_batches_to_alert:
  assumes "distinct (map b_id (batches d))"
  shows "distinct (map (\<lambda>rw. b_id (fst rw)) (batches_to_alert today wd d))"
proof -
  have "map (\<lambda>rw. b_id (fst rw)) (batches_to_alert today wd d)
      = map b_id (map fst (batches_to_alert today wd d))"
    by simp
  also have "\<dots> = map b_id (filter (\<lambda>b. join_row d b \<noteq> None)
      (filter (\<lambda>b. is_active b = True \<and> expiry_date b > today
                     \<and> expiry_date b \<le> wd \<and> current_quantity b > 0) (batches d)))"
    unfolding batches_to_alert_def map_fst_map_filter_join ..
  finally show ?thesis using assms by (simp add: distinct_map_filter)
qed

lemma mark_expired_eq:
  "mark_expired today d = d\<lparr>batches := map (expire today) (batches d)\<rparr>"
proof -
  have "map (\<lambda>b. if b \<in> set (expired_batches today d)
                  then b\<lparr>is_expired := True, is_active := False\<rparr> else b) (batches d)
      = map (expire today) (batches d)"
    by (rule map_cong) (simp_all add: mem_expired_batches expire_def)
  then show ?thesis by (simp add: mark_expired_def)
qed

lemma tx_begin_pass [simp]: "tx (begin_pass line d) = d"
  by (simp add: begin_pass_def)

lemma expiry_pass_ok:
  assumes rel: "\<forall>op. db_raises e op = None"
    and rng: "in_range (local_date clk) (EXPIRY_WARNING_DAYS cfg)"
      "in_range (local_date clk) (EXPIRY_CRITICAL_DAYS cfg)"
    and dist: "distinct (map b_id (batches d))"
    and one: "\<forall>rw\<in>set (candidates cfg clk d).
                length (todays_alerts cfg clk d rw) \<le> 1"
  shows "\<exists>st n. expiry_pass e cfg clk (begin_pass line d) = Inr (st, n)
      \<and> tx st = d\<lparr>batches := map (expire (local_date clk)) (batches d),
                   alerts := alerts d @ map (new_expiry_alert cfg clk)
                     (fresh cfg clk d (candidates cfg clk d))\<rparr>
      \<and> logged st = logged (created e cfg clk
                      (fresh cfg clk d (candidates cfg clk d))
                      (begin_pass line d))"
proof -
  let ?today = "local_date clk"
  let ?rows = "candidates cfg clk d"
  let ?st0 = "begin_pass line d"
  have loop: "alert_batches e cfg clk ?rows ?st0
      = Inr (created e cfg clk (fresh cfg clk d ?rows) ?st0)"
    using rel distinct_batches_to_alert [OF dist] one
    by (intro alert_batches_ok) (simp_all add: candidates_in_range [OF rng])
  show ?thesis
    using rel loop
    by (simp add: expiry_pass_in_range [OF rng] mark_expired_eq tx_created)
qed

lemma fst_check_expiring_batches:
  "fst (check_expiring_batches e cfg clk d) =
     (case expiry_pass e cfg clk (begin_pass ''Starting expiry check task...'' d) of
        Inl x \<Rightarrow> d | Inr (st, n) \<Rightarrow> tx st)"
  by (simp add: check_expiring_batches_def Let_def split: sum.splits prod.splits)

lemma check_expiring_batches_ok:
  assumes rel: "\<forall>op. db_raises e op = None"
    and rng: "in_range (local_date clk) (EXPIRY_WARNING_DAYS cfg)"
      "in_range (local_date clk) (EXPIRY_CRITICAL_DAYS cfg)"
    and dist: "distinct (map b_id (batches d))"
    and one: "\<forall>rw\<in>set (candidates cfg clk d).
                length (todays_alerts cfg clk d rw) \<le> 1"
  shows "fst (check_expiring_batches e cfg clk d) =
           d\<lparr>batches := map (expire (local_date clk)) (batches d),
             alerts := alerts d @ map (new_expiry_alert cfg clk)
               (fresh cfg clk d (candidates cfg clk d))\<rparr>"
  using expiry_pass_ok [OF assms, of "''Starting expiry check task...''"]
  unfolding fst_check_expiring_batches by auto

subsection \<open>What every invocation does to the rows\<close>

lemma filter_eq_single:
  "distinct xs \<Longrightarrow> filter (\<lambda>y. y = x) xs = (if x \<in> set xs then [x] else [])"
  by (induction xs) auto

text \<open>Among the alerts created for rows with distinct batch ids, the deduplication
  query of a row finds at most its own.\<close>

lemma filter_new_alerts:
  assumes dist: "distinct (map (\<lambda>rw. b_id (fst rw)) rows)"
    and mem: "rw \<in> set rows" and sub: "set rows' \<subseteq> set rows" and dist': "distinct rows'"
  shows "filter (\<lambda>a. batch_id a = b_id (fst rw) \<and> alert_type a = ty \<and> t \<le> created_at a)
           (map (new_expiry_alert cfg clk) rows')
       = (if rw \<in> set rows' \<and> ty = tier_type cfg clk rw \<and> t \<le> server_now clk
          then [new_expiry_alert cfg clk rw] else [])"
proof -
  have inj: "\<And>r. r \<in> set rows' \<Longrightarrow> b_id (fst r) = b_id (fst rw) \<longleftrightarrow> r = rw"
    using dist mem sub by (meson distinct_map inj_onD subsetD)
  have "filter (\<lambda>a. batch_id a = b_id (fst rw) \<and> alert_type a = ty \<and> t \<le> created_at a)
           (map (new_expiry_alert cfg clk) rows')
      = map (new_expiry_alert cfg clk)
          (filter (\<lambda>r. b_id (fst r) = b_id (fst rw) \<and> tier_type cfg clk r = ty \<and> t \<le> server_now clk) rows')"
    by (simp add: filter_map comp_def new_expiry_alert_simps)
  also have "filter (\<lambda>r. b_id (fst r) = b_id (fst rw) \<and> tier_type cfg clk r = ty \<and> t \<le> server_now clk) rows'
      = filter (\<lambda>r. r = rw \<and> ty = tier_type cfg clk rw \<and> t \<le> server_now clk) rows'"
    by (rule filter_cong) (auto simp: inj)
  also have "\<dots> = (if ty = tier_type cfg clk rw \<and> t \<le> server_now clk then filter (\<lambda>r. r = rw) rows' else [])"
    by simp
  finally show ?thesis using dist' by (simp add: filter_eq_single)
qed

lemma distinct_candidates_ids:
  "distinct (map b_id (batches d)) \<Longrightarrow> distinct (map (\<lambda>rw. b_id (fst rw)) (candidates cfg clk d))"
  using candidates_cases [of cfg clk d] distinct_batches_to_alert [of d] by auto

lemma distinct_candidates:
  "distinct (map b_id (batches d)) \<Longrightarrow> distinct (candidates cfg clk d)"
  using distinct_candidates_ids [of d cfg clk] by (simp add: distinct_map)

lemma join_row_cong:
  "products d' = products d \<Longrightarrow> branches d' = branches d \<Longrightarrow> join_row d' b = join_row d b"
  by (simp add: join_row_def split: option.splits)

lemma expire_simps [simp]:
  "b_id (expire t b) = b_id b"
  "expiry_date (expire t b) = expiry_date b"
  "current_quantity (expire t b) = current_quantity b"
  by (simp_all add: expire_def)

lemma expire_idem: "expire t (expire t b) = expire t b"
  by (simp add: expire_def)

lemma expire_later: "t \<le> today \<Longrightarrow> today < expiry_date b \<Longrightarrow> expire t b = b"
  by (simp add: expire_def)

text \<open>Whatever happens in the loop, it only appends alerts of candidates.\<close>

lemma alert_batches_Inr_tx:
  assumes "alert_batches e cfg clk rows st = Inr st'"
  shows "\<exists>rows'. set rows' \<subseteq> set rows
           \<and> tx st' = (tx st)\<lparr>alerts := alerts (tx st) @ map (new_expiry_alert cfg clk) rows'\<rparr>"
  using assms
proof (induction rows arbitrary: st)
  case Nil
  then show ?case by simp
next
  case (Cons r rows)
  show ?case
  proof (cases "alert_batch e cfg clk r st")
    case (Inl err)
    then show ?thesis using Cons.prems by simp
  next
    case (Inr st1)
    then have "alert_batches e cfg clk rows st1 = Inr st'"
      using Cons.prems by simp
    from Cons.IH [OF this] obtain rows' where r': "set rows' \<subseteq> set rows"
      and t: "tx st' = (tx st1)\<lparr>alerts := alerts (tx st1) @ map (new_expiry_alert cfg clk) rows'\<rparr>"
      by blast
    from alert_batch_Inr [OF Inr] show ?thesis
    proof
      assume "todays_alerts cfg clk (tx st) r = [] \<and> st1 = alerted e cfg clk r st"
      then have "tx st' = (tx st)\<lparr>alerts := alerts (tx st)
          @ map (new_expiry_alert cfg clk) (r # rows')\<rparr>"
        using t by (simp add: db_add_def)
      moreover have "set (r # rows') \<subseteq> set (r # rows)" using r' by auto
      ultimately show ?thesis by blast
    next
      assume "todays_alerts cfg clk (tx st) r \<noteq> [] \<and> st1 = st"
      then have "tx st' = (tx st)\<lparr>alerts := alerts (tx st)
          @ map (new_expiry_alert cfg clk) rows'\<rparr>"
        using t by simp
      moreover have "set rows' \<subseteq> set (r # rows)" using r' by auto
      ultimately show ?thesis by blast
    qed
  qed
qed

text \<open>The committed rows after any invocation: those before it, or those with the
  alerts of some candidates appended and the expired batches marked.\<close>

lemma fst_check_cases:
  "fst (check_expiring_batches e cfg clk d) = d
   \<or> (\<exists>rows'. set rows' \<subseteq> set (candidates cfg clk d)
         \<and> fst (check_expiring_batches e cfg clk d) =
             d\<lparr>batches := map (expire (local_date clk)) (batches d),
               alerts := alerts d @ map (new_expiry_alert cfg clk) rows'\<rparr>)"
proof (cases "expiry_pass e cfg clk (begin_pass ''Starting expiry check task...'' d)")
  case (Inl x)
  then show ?thesis by (simp add: fst_check_expiring_batches)
next
  case (Inr y)
  let ?st0 = "begin_pass ''Starting expiry check task...'' d"
  obtain st n where y: "y = (st, n)" by (cases y)
  note rng = expiry_pass_Inr_in_range [OF Inr]
  from Inr y obtain st1 where
    loop: "alert_batches e cfg clk (candidates cfg clk d) ?st0 = Inr st1"
    and st: "tx st = mark_expired (local_date clk) (tx st1)"
    by (auto simp: expiry_pass_in_range [OF rng] split: option.splits sum.splits)
  from alert_batches_Inr_tx [OF loop] obtain rows' where
    "set rows' \<subseteq> set (candidates cfg clk d)"
    "tx st1 = d\<lparr>alerts := alerts d @ map (new_expiry_alert cfg clk) rows'\<rparr>"
    by auto
  then show ?thesis
    using Inr y st by (auto simp: fst_check_expiring_batches mark_expired_eq)
qed

lemma batches_fst_check:
  "batches (fst (check_expiring_batches e cfg clk d)) = batches d
   \<or> batches (fst (check_expiring_batches e cfg clk d)) = map (expire (local_date clk)) (batches d)"
  using fst_check_cases [of e cfg clk d] by auto

lemma list_all2_map_same:
  "(\<And>x. x \<in> set xs \<Longrightarrow> P x (f x)) \<Longrightarrow> list_all2 P xs (map f xs)"
  by (induction xs) auto

lemma list_all2_same:
  "(\<And>x. x \<in> set xs \<Longrightarrow> P x x) \<Longrightarrow> list_all2 P xs xs"
  by (induction xs) auto

text \<open>Row by row, an invocation leaves a batch as it is or marks it expired and
  inactive; a batch already marked expired is left as it is.\<close>

lemma batches_row_by_row:
  "list_all2 (\<lambda>b b'. (is_expired b \<longrightarrow> b' = b)
                     \<and> (b' = b \<or> is_expired b' \<and> \<not> is_active b'))
     (batches d) (batches (fst (check_expiring_batches e cfg clk d)))"
proof -
  let ?P = "\<lambda>b b'. (is_expired b \<longrightarrow> b' = b) \<and> (b' = b \<or> is_expired b' \<and> \<not> is_active b')"
  have "list_all2 ?P (batches d) (batches d)"
    by (rule list_all2_same) simp
  moreover have "list_all2 ?P (batches d) (map (expire (local_date clk)) (batches d))"
    by (rule list_all2_map_same) (simp add: expire_def)
  ultimately show ?thesis
    using batches_fst_check [of e cfg clk d] by auto
qed

text \<open>A candidate with two or more alerts of its type dated today or later makes the
  pass fail, and a failed pass commits nothing.\<close>

lemma expiry_pass_ambiguous:
  assumes "rw \<in> set (candidates cfg clk d)"
    and "2 \<le> length (todays_alerts cfg clk d rw)"
  shows "\<exists>err st. expiry_pass e cfg clk (begin_pass line d) = Inl (err, st)
           \<and> ((\<forall>op. db_raises e op = None) \<longrightarrow> err = MultipleResultsFound)"
proof -
  note rng = mem_candidates_in_range [OF assms(1)]
  show ?thesis
  proof (cases "db_raises e Select_Batches")
    case (Some m)
    then show ?thesis by (auto simp: expiry_pass_in_range [OF rng])
  next
    case None
    let ?st0 = "begin_pass line d"
    obtain err st where l: "alert_batches e cfg clk (candidates cfg clk d) ?st0
        = Inl (err, st)"
      using alert_batches_many [OF assms(1), of cfg clk ?st0 e] assms(2) by auto
    have "(\<forall>op. db_raises e op = None) \<longrightarrow> err = MultipleResultsFound"
      using alert_batches_error [OF _ l] by blast
    then show ?thesis
      using None l by (simp add: expiry_pass_in_range [OF rng])
  qed
qed

lemma fst_check_ambiguous:
  assumes "rw \<in> set (candidates cfg clk d)"
    and "2 \<le> length (todays_alerts cfg clk d rw)"
  shows "fst (check_expiring_batches e cfg clk d) = d"
  using expiry_pass_ambiguous [OF assms, of e "''Starting expiry check task...''"]
  unfolding fst_check_expiring_batches by auto

subsection \<open>The small store, evaluated\<close>

lemma june_eq: "june day = 739037 + day"
  by (simp add: june_def ymd2ord_def days_before_year_def days_before_month_def is_leap_def Let_def)

lemma default_settings [simp]:
  "EXPIRY_WARNING_DAYS (Settings Map.empty) = 5"
  "EXPIRY_CRITICAL_DAYS (Settings Map.empty) = 1"
  by (simp_all add: Settings_def)

lemma join_row_shelf [simp]: "join_row shelf (lot i q ex) = Some (lot i q ex, milk, depot)"
  by (simp add: join_row_def shelf_def lot_def)

lemma shelf_simps [simp]:
  "batches shelf = [lot 1 3 (june 11), lot 2 4 (june 15), lot 3 9 (june 9), lot 4 0 (june 12)]"
  "alerts shelf = []"
  by (simp_all add: shelf_def)

lemma lot_simps [simp]:
  "b_id (lot i q ex) = i" "current_quantity (lot i q ex) = q" "expiry_date (lot i q ex) = ex"
  "is_active (lot i q ex) = True" "is_expired (lot i q ex) = False"
  by (simp_all add: lot_def)

lemma calm_simps [simp]:
  "db_raises calm op = None" "service_raises calm = None"
  "notify_raises calm r p b n lv = None"
  by (simp_all add: calm_def)

lemma at_noon_simps [simp]:
  "local_date (at_noon d) = d" "server_now (at_noon d) = noon d" "cast_offset (at_noon d) = 0"
  by (simp_all add: at_noon_def)

lemma in_range_june [simp]: "in_range (june 10) 5" "in_range (june 10) 1" "in_range (june 10) 7"
  by (simp_all add: in_range_def june_eq)

lemma candidates_shelf:
  "candidates (Settings Map.empty) (at_noon (june 10)) shelf =
     [(lot 1 3 (june 11), milk, depot), (lot 2 4 (june 15), milk, depot)]"
proof -
  have "candidates (Settings Map.empty) (at_noon (june 10)) shelf
      = batches_to_alert (june 10) (june 10 + 5) shelf"
    using candidates_in_range [of "at_noon (june 10)" "Settings Map.empty" shelf] by simp
  then show ?thesis
    by (simp add: batches_to_alert_def List.map_filter_simps june_eq)
qed

lemma crowded_simps [simp]:
  "batches crowded = batches shelf" "alerts crowded = [twin, twin]"
  by (simp_all add: crowded_def)

lemma candidates_crowded [simp]: "candidates cfg clk crowded = candidates cfg clk shelf"
proof -
  have j: "join_row crowded = join_row shelf"
    by (intro ext join_row_cong) (simp_all add: crowded_def)
  have b: "batches crowded = batches shelf"
    by (simp add: crowded_def)
  show ?thesis
    unfolding candidates_def batches_to_alert_def j b ..
qed

lemma join_row_crowded [simp]:
  "join_row crowded (lot i q ex) = Some (lot i q ex, milk, depot)"
  by (simp add: join_row_def crowded_def shelf_def lot_def)

lemma twin_simps [simp]:
  "batch_id twin = 1" "alert_type twin = ''expiry_critical''"
  "created_at twin = noon (june 10)"
  by (simp_all add: twin_def new_expiry_alert_simps tier_type_eq june_eq)

lemma todays_alerts_crowded:
  "todays_alerts (Settings Map.empty) (at_noon (june 10)) crowded
     (lot 1 3 (june 11), milk, depot) = [twin, twin]"
  "todays_alerts (Settings Map.empty) (at_noon (june 10)) crowded
     (lot 2 4 (june 15), milk, depot) = []"
  by (simp_all add: todays_alerts_def existing_alert_def tier_type_eq june_eq noon_def
      cast_date_def)

subsection \<open>A deduplication lookup that finds two rows\<close>

text \<open>
  Claim C10. If some candidate of the pass already has two or more alerts with its batch
  id and its tier-derived type created today or later, then the deduplication lookup of
  that candidate raises \<open>MultipleResultsFound\<close> (unless the data store itself raises at
  that statement) instead of skipping the candidate; the pass fails, with that error when
  the data store raises nowhere; and the invocation is rolled back: the committed rows
  (alerts and batches) are those before it.
\<close>

theorem ambiguous_lookup_fails_pass:
  assumes "rw \<in> set (candidates cfg clk d)"
    and "2 \<le> length (todays_alerts cfg clk d rw)"
  shows "(db_raises e (Select_Alert (b_id (fst rw)) (tier_type cfg clk rw)) = None
           \<longrightarrow> alert_batch e cfg clk rw
                 (begin_pass ''Starting expiry check task...'' d) = Inl MultipleResultsFound)
       \<and> (\<exists>err st. expiry_pass e cfg clk (begin_pass ''Starting expiry check task...'' d)
                      = Inl (err, st)
             \<and> ((\<forall>op. db_raises e op = None) \<longrightarrow> err = MultipleResultsFound))
       \<and> fst (check_expiring_batches e cfg clk d) = d"
proof -
  have "db_raises e (Select_Alert (b_id (fst rw)) (tier_type cfg clk rw)) = None
      \<longrightarrow> alert_batch e cfg clk rw
            (begin_pass ''Starting expiry check task...'' d) = Inl MultipleResultsFound"
    using assms(2) unfolding alert_batch_eq
    by (auto split: list.splits)
  then show ?thesis
    using expiry_pass_ambiguous [OF assms] fst_check_ambiguous [OF assms] by blast
qed

theorem ambiguous_lookup_fails_pass_witness:
  "alert_batch calm (Settings Map.empty) (at_noon (june 10))
      (lot 1 3 (june 11), milk, depot) (begin_pass ''Starting expiry check task...'' crowded)
     = Inl MultipleResultsFound
   \<and> fst (check_expiring_batches calm (Settings Map.empty) (at_noon (june 10)) crowded) = crowded"
proof -
  let ?cfg = "Settings Map.empty"
  have m: "(lot 1 3 (june 11), milk, depot) \<in> set (candidates ?cfg (at_noon (june 10)) crowded)"
    by (simp add: candidates_shelf)
  have l: "2 \<le> length (todays_alerts ?cfg (at_noon (june 10)) crowded
      (lot 1 3 (june 11), milk, depot))"
    by (simp add: todays_alerts_crowded)
  show ?thesis
    using ambiguous_lookup_fails_pass [OF m l, of calm] by simp
qed

subsection \<open>Failures of the data store and of the notification service\<close>

text \<open>The rows a pass works on do not depend on what the notification service does.\<close>

lemma alert_batches_notify:
  assumes "tx st' = tx st" and same: "db_raises e' = db_raises e"
  shows "map_sum (map_prod id tx) tx (alert_batches e' cfg clk rows st')
       = map_sum (map_prod id tx) tx (alert_batches e cfg clk rows st)"
  using assms(1)
proof (induction rows arbitrary: st st')
  case Nil
  then show ?case by simp
next
  case (Cons r rows)
  show ?case
  proof (cases "db_raises e (Select_Alert (b_id (fst r)) (tier_type cfg clk r))")
    case (Some m)
    then show ?thesis using Cons.prems same by (simp add: alert_batch_eq)
  next
    case None
    show ?thesis
    proof (cases "todays_alerts cfg clk (tx st) r")
      case Nil
      have "tx (alerted e' cfg clk r st') = tx (alerted e cfg clk r st)"
        using Cons.prems by simp
      from Cons.IH [OF this] show ?thesis
        using None Nil Cons.prems same by (simp add: alert_batch_eq)
    next
      case (Cons a as)
      then show ?thesis
        using None Cons.prems same Cons.IH [OF Cons.prems]
        by (cases as) (simp_all add: alert_batch_eq)
    qed
  qed
qed

lemma fst_check_notify:
  assumes same: "db_raises e' = db_raises e"
  shows "fst (check_expiring_batches e' cfg clk d) = fst (check_expiring_batches e cfg clk d)"
proof (cases "in_range (local_date clk) (EXPIRY_WARNING_DAYS cfg)
    \<and> in_range (local_date clk) (EXPIRY_CRITICAL_DAYS cfg)")
  case False
  from expiry_pass_out_of_range [OF this, of "begin_pass ''Starting expiry check task...'' d"]
  show ?thesis
    unfolding fst_check_expiring_batches by auto
next
  case True
  then have rng: "in_range (local_date clk) (EXPIRY_WARNING_DAYS cfg)"
    "in_range (local_date clk) (EXPIRY_CRITICAL_DAYS cfg)" by simp_all
  let ?e' = e'
  let ?st0 = "begin_pass ''Starting expiry check task...'' d"
  let ?rows = "candidates cfg clk (tx ?st0)"
  have l: "map_sum (map_prod id tx) tx (alert_batches ?e' cfg clk ?rows ?st0)
      = map_sum (map_prod id tx) tx (alert_batches e cfg clk ?rows ?st0)"
    by (rule alert_batches_notify) (simp_all add: same)
  show ?thesis
  proof (cases "alert_batches e cfg clk ?rows ?st0")
    case (Inl x)
    then obtain x' where "alert_batches ?e' cfg clk ?rows ?st0 = Inl x'"
      using l by (cases "alert_batches ?e' cfg clk ?rows ?st0") auto
    then show ?thesis
      using Inl same unfolding fst_check_expiring_batches expiry_pass_in_range [OF rng]
      by (simp split: option.splits)
  next
    case (Inr s)
    then obtain s' where s': "alert_batches ?e' cfg clk ?rows ?st0 = Inr s'"
      and t: "tx s' = tx s"
      using l by (cases "alert_batches ?e' cfg clk ?rows ?st0") auto
    show ?thesis
      using Inr s' t same unfolding fst_check_expiring_batches expiry_pass_in_range [OF rng]
      by (simp split: option.splits)
  qed
qed

text \<open>A failure of the notification service is logged by the loop.\<close>

lemma logged_alerted:
  "set (logged st) \<subseteq> set (logged (alerted e cfg clk rw st))"
  "gateway_error e cfg clk rw = Some msg \<Longrightarrow>
     ERROR (''Failed to send notification: '' @ msg) \<in> set (logged (alerted e cfg clk rw st))"
  by (auto simp: alerted_def try_send_notification_def send_expiry_alert_def gateway_error_def
      split: option.splits)

lemma logged_created_mono:
  "set (logged st) \<subseteq> set (logged (created e cfg clk rows st))"
proof (induction rows arbitrary: st)
  case Nil
  then show ?case by simp
next
  case (Cons r rows)
  show ?case using logged_alerted(1) [of st e cfg clk r] Cons.IH by fastforce
qed

lemma logged_created:
  assumes "rw \<in> set rows" and "gateway_error e cfg clk rw = Some msg"
  shows "ERROR (''Failed to send notification: '' @ msg)
           \<in> set (logged (created e cfg clk rows st))"
  using assms(1)
proof (induction rows arbitrary: st)
  case Nil
  then show ?case by simp
next
  case (Cons r rows)
  show ?case
  proof (cases "r = rw")
    case True
    then show ?thesis
      using logged_alerted(2) [OF assms(2), of st]
        logged_created_mono [of "alerted e cfg clk rw st" e cfg clk rows]
      by auto
  next
    case False
    then show ?thesis using Cons by simp
  qed
qed

lemma snd_check_expiring_batches_ok:
  assumes rel: "\<forall>op. db_raises e op = None"
    and rng: "in_range (local_date clk) (EXPIRY_WARNING_DAYS cfg)"
      "in_range (local_date clk) (EXPIRY_CRITICAL_DAYS cfg)"
    and dist: "distinct (map b_id (batches d))"
    and one: "\<forall>rw\<in>set (candidates cfg clk d).
                length (todays_alerts cfg clk d rw) \<le> 1"
  shows "set (logged (created e cfg clk
                    (fresh cfg clk d (candidates cfg clk d))
                    (begin_pass ''Starting expiry check task...'' d)))
           \<subseteq> set (snd (check_expiring_batches e cfg clk d))"
  using expiry_pass_ok [OF assms, of "''Starting expiry check task...''"]
  by (auto simp: check_expiring_batches_def Let_def)

text \<open>A pass that reaches its commit reaches it also when the data store never raises,
  in the same state.\<close>

lemma alert_batches_reliable:
  assumes "alert_batches e cfg clk rows st = Inr st'"
  shows "alert_batches (e\<lparr>db_raises := (\<lambda>op. None)\<rparr>) cfg clk rows st = Inr st'"
  using assms
proof (induction rows arbitrary: st)
  case Nil
  then show ?case by simp
next
  case (Cons r rows)
  let ?e0 = "e\<lparr>db_raises := (\<lambda>op. None)\<rparr>"
  have se: "send_expiry_alert ?e0 = send_expiry_alert e"
    by (intro ext) (simp add: send_expiry_alert_def)
  have al: "alerted ?e0 cfg clk r st = alerted e cfg clk r st"
    unfolding alerted_def try_send_notification_def se by simp
  show ?case
  proof (cases "alert_batch e cfg clk r st")
    case (Inl err)
    then show ?thesis using Cons.prems by simp
  next
    case (Inr st1)
    then have "alert_batch ?e0 cfg clk r st = Inr st1"
      unfolding alert_batch_eq al by (auto split: option.splits)
    then show ?thesis using Cons Inr by simp
  qed
qed

lemma expiry_pass_reliable:
  assumes "expiry_pass e cfg clk st0 = Inr y"
  shows "expiry_pass (e\<lparr>db_raises := (\<lambda>op. None)\<rparr>) cfg clk st0 = Inr y"
proof -
  note rng = expiry_pass_Inr_in_range [OF assms]
  let ?rows = "candidates cfg clk (tx st0)"
  from assms obtain st where
    l: "alert_batches e cfg clk ?rows st0 = Inr st"
    and y: "y = (st\<lparr>tx := mark_expired (local_date clk) (tx st)\<rparr>,
                 length (expired_batches (local_date clk) (tx st)))"
    by (auto simp: expiry_pass_in_range [OF rng] split: option.splits sum.splits)
  show ?thesis
    using alert_batches_reliable [OF l] y by (simp add: expiry_pass_in_range [OF rng])
qed

lemma expiry_pass_commit_raises:
  assumes sel: "\<forall>bid ty. db_raises e (Select_Alert bid ty) = None"
    and q1: "db_raises e Select_Batches = None" and q2: "db_raises e Select_Expired = None"
    and c: "db_raises e Commit = Some m"
    and rng: "in_range (local_date clk) (EXPIRY_WARNING_DAYS cfg)"
      "in_range (local_date clk) (EXPIRY_CRITICAL_DAYS cfg)"
    and dist: "distinct (map b_id (batches d))"
    and one: "\<forall>rw\<in>set (candidates cfg clk d).
                length (todays_alerts cfg clk d rw) \<le> 1"
  shows "\<exists>st. expiry_pass e cfg clk (begin_pass line d) = Inl (Raised m, st)
           \<and> alerts (tx st) = alerts d @ map (new_expiry_alert cfg clk)
                (fresh cfg clk d (candidates cfg clk d))"
proof -
  let ?today = "local_date clk"
  let ?rows = "candidates cfg clk d"
  let ?st0 = "begin_pass line d"
  have loop: "alert_batches e cfg clk ?rows ?st0
      = Inr (created e cfg clk (fresh cfg clk d ?rows) ?st0)"
    using sel distinct_candidates_ids [OF dist] one
    by (intro alert_batches_ok) simp_all
  show ?thesis
    using q1 q2 c loop
    by (simp add: expiry_pass_in_range [OF rng] mark_expired_eq tx_created)
qed

text \<open>
  Claim C4. An invocation commits once, at its end. Whenever the body of the pass
  raises, at whatever statement, the committed rows after the invocation are the rows
  before it; and the committed rows after any invocation are either the rows before it
  or the rows that the same pass commits when the data store raises nowhere: no part of
  a pass is ever persisted alone.
\<close>

theorem pass_is_one_unit_of_work:
  "(\<forall>x. expiry_pass e cfg clk (begin_pass ''Starting expiry check task...'' d) = Inl x
        \<longrightarrow> fst (check_expiring_batches e cfg clk d) = d)
   \<and> (fst (check_expiring_batches e cfg clk d) = d
      \<or> fst (check_expiring_batches e cfg clk d)
          = fst (check_expiring_batches (e\<lparr>db_raises := (\<lambda>op. None)\<rparr>) cfg clk d))"
proof (cases "expiry_pass e cfg clk (begin_pass ''Starting expiry check task...'' d)")
  case (Inl x)
  then show ?thesis by (simp add: fst_check_expiring_batches)
next
  case (Inr y)
  from expiry_pass_reliable [OF Inr] show ?thesis
    using Inr by (simp add: fst_check_expiring_batches)
qed

text \<open>The commit raises after the loop has added two alerts and the expired batch has
  been marked: nothing of it is committed.\<close>

theorem pass_is_one_unit_of_work_witness:
  "(\<exists>st. expiry_pass stormy (Settings Map.empty) (at_noon (june 10))
            (begin_pass ''Starting expiry check task...'' shelf)
          = Inl (Raised ''connection lost'', st)
        \<and> length (alerts (tx st)) = 2)
   \<and> fst (check_expiring_batches stormy (Settings Map.empty) (at_noon (june 10)) shelf) = shelf"
proof -
  let ?cfg = "Settings Map.empty"
  let ?clk = "at_noon (june 10)"
  have h2: "distinct (map b_id (batches shelf))" by simp
  have h3: "\<forall>rw\<in>set (candidates ?cfg ?clk shelf).
              length (todays_alerts ?cfg ?clk shelf rw) \<le> 1"
    by (simp add: todays_alerts_def existing_alert_def)
  have r1: "in_range (local_date ?clk) (EXPIRY_WARNING_DAYS ?cfg)"
    and r2: "in_range (local_date ?clk) (EXPIRY_CRITICAL_DAYS ?cfg)" by simp_all
  obtain st where st: "expiry_pass stormy ?cfg ?clk
        (begin_pass ''Starting expiry check task...'' shelf) = Inl (Raised ''connection lost'', st)"
    and al: "alerts (tx st) = alerts shelf @ map (new_expiry_alert ?cfg ?clk)
                (fresh ?cfg ?clk shelf (candidates ?cfg ?clk shelf))"
    using expiry_pass_commit_raises [OF _ _ _ _ r1 r2 h2 h3, of stormy "''connection lost''"
        "''Starting expiry check task...''"]
    by (auto simp: stormy_def)
  have "length (alerts (tx st)) = 2"
    unfolding al by (simp add: fresh_def candidates_shelf todays_alerts_def existing_alert_def)
  moreover have "fst (check_expiring_batches stormy ?cfg ?clk shelf) = shelf"
    using pass_is_one_unit_of_work [of stormy ?cfg ?clk shelf] st by blast
  ultimately show ?thesis using st by blast
qed

text \<open>
  Claim C5. The committed rows after an invocation do not depend on the notification
  service: two environments in which the data store behaves alike give the same
  committed rows, whichever constructions and calls of the service raise. In a pass that
  meets no failure of the data store (batch ids distinct, no candidate with two alerts
  of its type dated today or later), every candidate without an alert gets its alert
  persisted, whether or not its notification raised and whether or not an earlier one
  did, and every notification failure is in the log of the job.
\<close>

theorem notification_failure_is_isolated:
  "(\<forall>e'. db_raises e' = db_raises e \<longrightarrow>
        fst (check_expiring_batches e' cfg clk d) = fst (check_expiring_batches e cfg clk d))
   \<and> ((\<forall>op. db_raises e op = None) \<longrightarrow> distinct (map b_id (batches d)) \<longrightarrow>
       (\<forall>rw\<in>set (candidates cfg clk d).
           length (todays_alerts cfg clk d rw) \<le> 1) \<longrightarrow>
       (\<forall>rw\<in>set (candidates cfg clk d).
           todays_alerts cfg clk d rw = [] \<longrightarrow>
             new_expiry_alert cfg clk rw
               \<in> set (alerts (fst (check_expiring_batches e cfg clk d)))
           \<and> (\<forall>msg. gateway_error e cfg clk rw = Some msg \<longrightarrow>
                  ERROR (''Failed to send notification: '' @ msg)
                    \<in> set (snd (check_expiring_batches e cfg clk d)))))"
proof -
  have a: "\<forall>e'. db_raises e' = db_raises e \<longrightarrow>
        fst (check_expiring_batches e' cfg clk d) = fst (check_expiring_batches e cfg clk d)"
    using fst_check_notify by blast
  have b: "new_expiry_alert cfg clk rw
               \<in> set (alerts (fst (check_expiring_batches e cfg clk d)))
           \<and> (\<forall>msg. gateway_error e cfg clk rw = Some msg \<longrightarrow>
                  ERROR (''Failed to send notification: '' @ msg)
                    \<in> set (snd (check_expiring_batches e cfg clk d)))"
    if rel: "\<forall>op. db_raises e op = None" and dist: "distinct (map b_id (batches d))"
      and one: "\<forall>rw\<in>set (candidates cfg clk d).
           length (todays_alerts cfg clk d rw) \<le> 1"
      and mem: "rw \<in> set (candidates cfg clk d)"
      and none: "todays_alerts cfg clk d rw = []"
    for rw
  proof -
    note rng = mem_candidates_in_range [OF mem]
    have fr: "rw \<in> set (fresh cfg clk d (candidates cfg clk d))"
      using mem none by (simp add: fresh_def)
    then have "new_expiry_alert cfg clk rw
        \<in> set (alerts (fst (check_expiring_batches e cfg clk d)))"
      unfolding check_expiring_batches_ok [OF rel rng dist one] by simp
    moreover have "ERROR (''Failed to send notification: '' @ msg)
        \<in> set (snd (check_expiring_batches e cfg clk d))"
      if "gateway_error e cfg clk rw = Some msg" for msg
      using logged_created [OF fr that] snd_check_expiring_batches_ok [OF rel rng dist one]
      by blast
    ultimately show ?thesis by blast
  qed
  show ?thesis using a b by blast
qed

text \<open>Every notification raises: both alerts are persisted all the same, and the
  failure is in the log.\<close>

theorem notification_failure_is_isolated_witness:
  "fst (check_expiring_batches mute (Settings Map.empty) (at_noon (june 10)) shelf)
     = fst (check_expiring_batches calm (Settings Map.empty) (at_noon (june 10)) shelf)
   \<and> new_expiry_alert (Settings Map.empty) (at_noon (june 10))
        (lot 1 3 (june 11), milk, depot)
       \<in> set (alerts (fst (check_expiring_batches mute (Settings Map.empty) (at_noon (june 10)) shelf)))
   \<and> new_expiry_alert (Settings Map.empty) (at_noon (june 10))
        (lot 2 4 (june 15), milk, depot)
       \<in> set (alerts (fst (check_expiring_batches mute (Settings Map.empty) (at_noon (june 10)) shelf)))
   \<and> ERROR ''Failed to send notification: SMTP down''
       \<in> set (snd (check_expiring_batches mute (Settings Map.empty) (at_noon (june 10)) shelf))"
proof -
  let ?cfg = "Settings Map.empty"
  note T = notification_failure_is_isolated [of calm ?cfg "at_noon (june 10)" shelf]
  note U = notification_failure_is_isolated [of mute ?cfg "at_noon (june 10)" shelf]
  have a: "fst (check_expiring_batches mute ?cfg (at_noon (june 10)) shelf)
     = fst (check_expiring_batches calm ?cfg (at_noon (june 10)) shelf)"
  proof -
    have "db_raises mute = db_raises calm" by (simp add: mute_def)
    then show ?thesis using T by blast
  qed
  have h1: "\<forall>op. db_raises mute op = None" by (simp add: mute_def)
  have h2: "distinct (map b_id (batches shelf))" by simp
  have h3: "\<forall>rw\<in>set (candidates ?cfg (at_noon (june 10)) shelf).
              length (todays_alerts ?cfg (at_noon (june 10)) shelf rw) \<le> 1"
    and h4: "\<forall>rw\<in>set (candidates ?cfg (at_noon (june 10)) shelf). todays_alerts ?cfg (at_noon (june 10)) shelf rw = []"
    by (simp_all add: todays_alerts_def existing_alert_def)
  have g: "\<And>rw. gateway_error mute ?cfg (at_noon (june 10)) rw = Some ''SMTP down''"
    by (simp add: gateway_error_def mute_def)
  have m1: "(lot 1 3 (june 11), milk, depot) \<in> set (candidates ?cfg (at_noon (june 10)) shelf)"
    and m2: "(lot 2 4 (june 15), milk, depot) \<in> set (candidates ?cfg (at_noon (june 10)) shelf)"
    by (simp_all add: candidates_shelf)
  from U h1 h2 h3 have V: "\<forall>rw\<in>set (candidates ?cfg (at_noon (june 10)) shelf).
           todays_alerts ?cfg (at_noon (june 10)) shelf rw = [] \<longrightarrow>
             new_expiry_alert ?cfg (at_noon (june 10)) rw
               \<in> set (alerts (fst (check_expiring_batches mute ?cfg (at_noon (june 10)) shelf)))
           \<and> (\<forall>msg. gateway_error mute ?cfg (at_noon (june 10)) rw = Some msg \<longrightarrow>
                  ERROR (''Failed to send notification: '' @ msg)
                    \<in> set (snd (check_expiring_batches mute ?cfg (at_noon (june 10)) shelf)))"
    by blast
  have v1: "new_expiry_alert ?cfg (at_noon (june 10)) (lot 1 3 (june 11), milk, depot)
        \<in> set (alerts (fst (check_expiring_batches mute ?cfg (at_noon (june 10)) shelf)))"
    and v2: "new_expiry_alert ?cfg (at_noon (june 10)) (lot 2 4 (june 15), milk, depot)
        \<in> set (alerts (fst (check_expiring_batches mute ?cfg (at_noon (june 10)) shelf)))"
    and v3: "ERROR (''Failed to send notification: '' @ ''SMTP down'')
        \<in> set (snd (check_expiring_batches mute ?cfg (at_noon (june 10)) shelf))"
    using V m1 m2 h4 g by blast+
  have v4: "ERROR ''Failed to send notification: SMTP down''
        \<in> set (snd (check_expiring_batches mute ?cfg (at_noon (june 10)) shelf))"
    using v3 by simp
  show ?thesis
    using a v1 v2 v4 by blast
qed

subsection \<open>The candidates of a pass and what a committed pass does for one batch\<close>

lemma mem_candidates:
  assumes "in_range (local_date clk) (EXPIRY_WARNING_DAYS cfg)"
    and "in_range (local_date clk) (EXPIRY_CRITICAL_DAYS cfg)"
  shows "rw \<in> set (candidates cfg clk d) \<longleftrightarrow>
     (\<exists>b\<in>set (batches d). is_active b \<and> 0 < current_quantity b
        \<and> local_date clk < expiry_date b
        \<and> expiry_date b \<le> local_date clk + EXPIRY_WARNING_DAYS cfg \<and> join_row d b = Some rw)"
  unfolding candidates_in_range [OF assms] mem_batches_to_alert by blast

lemma candidate_row:
  assumes "rw \<in> set (candidates cfg clk d)"
  shows "fst rw \<in> set (batches d) \<and> join_row d (fst rw) = Some rw \<and> is_active (fst rw)
       \<and> 0 < current_quantity (fst rw) \<and> local_date clk < expiry_date (fst rw)
       \<and> expiry_date (fst rw) \<le> local_date clk + EXPIRY_WARNING_DAYS cfg"
proof -
  note rng = mem_candidates_in_range [OF assms]
  from assms obtain b where b: "b \<in> set (batches d)" "is_active b" "0 < current_quantity b"
    "local_date clk < expiry_date b" "expiry_date b \<le> local_date clk + EXPIRY_WARNING_DAYS cfg"
    "join_row d b = Some rw"
    unfolding mem_candidates [OF rng] by blast
  have "fst rw = b" using b(6) by (rule join_row_fst)
  then show ?thesis using b by simp
qed

lemma map_fst_candidates:
  assumes "in_range (local_date clk) (EXPIRY_WARNING_DAYS cfg)"
    and "in_range (local_date clk) (EXPIRY_CRITICAL_DAYS cfg)"
  shows "map fst (candidates cfg clk d) =
     filter (\<lambda>b. join_row d b \<noteq> None)
       (filter (\<lambda>b. is_active b \<and> 0 < current_quantity b \<and> local_date clk < expiry_date b
                     \<and> expiry_date b \<le> local_date clk + EXPIRY_WARNING_DAYS cfg) (batches d))"
proof -
  have eq: "filter (\<lambda>b. is_active b = True \<and> expiry_date b > local_date clk
              \<and> expiry_date b \<le> local_date clk + EXPIRY_WARNING_DAYS cfg
              \<and> current_quantity b > 0)
        (batches d)
      = filter (\<lambda>b. is_active b \<and> 0 < current_quantity b \<and> local_date clk < expiry_date b
              \<and> expiry_date b \<le> local_date clk + EXPIRY_WARNING_DAYS cfg) (batches d)"
    by (rule filter_cong) auto
  show ?thesis
    unfolding candidates_in_range [OF assms] batches_to_alert_def map_fst_map_filter_join eq ..
qed

text \<open>Among candidates, the row of a batch is found by the id of the batch.\<close>

lemma candidate_by_id:
  assumes dist: "distinct (map b_id (batches d))"
    and b: "b \<in> set (batches d)" and j: "join_row d b = Some rw"
    and r: "r \<in> set (candidates cfg clk d)"
  shows "b_id (fst r) = b_id b \<longleftrightarrow> r = rw"
proof
  assume eq: "b_id (fst r) = b_id b"
  have c: "fst r \<in> set (batches d)" "join_row d (fst r) = Some r"
    using candidate_row [OF r] by simp_all
  have "inj_on b_id (set (batches d))"
    using dist by (simp add: distinct_map)
  then have "fst r = b" using c(1) b eq by (auto dest: inj_onD)
  then show "r = rw" using c(2) j by simp
next
  assume "r = rw"
  then show "b_id (fst r) = b_id b" using join_row_fst [OF j] by simp
qed

text \<open>The alerts that any invocation adds carry the ids of candidates only.\<close>

lemma alerts_of_non_candidate:
  assumes dist: "distinct (map b_id (batches d))"
    and b: "b \<in> set (batches d)"
    and non: "\<not> (is_active b \<and> 0 < current_quantity b \<and> local_date clk < expiry_date b
                 \<and> expiry_date b \<le> local_date clk + EXPIRY_WARNING_DAYS cfg)"
  shows "filter (\<lambda>a. batch_id a = b_id b) (alerts (fst (check_expiring_batches e cfg clk d)))
       = filter (\<lambda>a. batch_id a = b_id b) (alerts d)"
proof -
  have other: "batch_id (new_expiry_alert cfg clk r) \<noteq> b_id b"
    if r: "r \<in> set (candidates cfg clk d)" for r
  proof
    assume "batch_id (new_expiry_alert cfg clk r) = b_id b"
    then have eq: "b_id (fst r) = b_id b" by (simp add: new_expiry_alert_simps)
    note c = candidate_row [OF r]
    have "inj_on b_id (set (batches d))"
      using dist by (simp add: distinct_map)
    then have "fst r = b" using c b eq by (auto dest: inj_onD)
    then show False using c non by simp
  qed
  from fst_check_cases [of e cfg clk d] show ?thesis
  proof
    assume "fst (check_expiring_batches e cfg clk d) = d"
    then show ?thesis by simp
  next
    assume "\<exists>rows'. set rows' \<subseteq> set (candidates cfg clk d)
       \<and> fst (check_expiring_batches e cfg clk d) =
           d\<lparr>batches := map (expire (local_date clk)) (batches d),
             alerts := alerts d @ map (new_expiry_alert cfg clk) rows'\<rparr>"
    then obtain rows' where sub: "set rows' \<subseteq> set (candidates cfg clk d)"
      and al: "alerts (fst (check_expiring_batches e cfg clk d))
          = alerts d @ map (new_expiry_alert cfg clk) rows'"
      by auto
    have "filter (\<lambda>a. batch_id a = b_id b) (map (new_expiry_alert cfg clk) rows') = []"
      using sub other by (auto simp: filter_empty_conv)
    then show ?thesis unfolding al by simp
  qed
qed

text \<open>A pass that meets no failure: the alerts of one batch afterwards, and its row.\<close>

lemma alerts_of_batch_after_pass:
  assumes rel: "\<forall>op. db_raises e op = None"
    and rng: "in_range (local_date clk) (EXPIRY_WARNING_DAYS cfg)"
      "in_range (local_date clk) (EXPIRY_CRITICAL_DAYS cfg)"
    and dist: "distinct (map b_id (batches d))"
    and one: "\<forall>rw\<in>set (candidates cfg clk d). length (todays_alerts cfg clk d rw) \<le> 1"
    and b: "b \<in> set (batches d)" and j: "join_row d b = Some rw"
  shows "filter (\<lambda>a. batch_id a = b_id b) (alerts (fst (check_expiring_batches e cfg clk d)))
       = filter (\<lambda>a. batch_id a = b_id b) (alerts d)
         @ (if is_active b \<and> 0 < current_quantity b \<and> local_date clk < expiry_date b
               \<and> expiry_date b \<le> local_date clk + EXPIRY_WARNING_DAYS cfg
               \<and> todays_alerts cfg clk d rw = []
            then [new_expiry_alert cfg clk rw] else [])"
proof -
  let ?rows = "fresh cfg clk d (candidates cfg clk d)"
  have sub: "set ?rows \<subseteq> set (candidates cfg clk d)" by (simp add: fresh_def)
  have dis: "distinct ?rows"
    using distinct_candidates [OF dist, of cfg clk] by (simp add: fresh_def)
  have fst: "fst rw = b" using j by (rule join_row_fst)
  have same: "\<And>b'. b' \<in> set (batches d) \<Longrightarrow> join_row d b' = Some rw \<Longrightarrow> b' = b"
    using fst join_row_fst by blast
  have cand: "rw \<in> set (candidates cfg clk d) \<longleftrightarrow>
      is_active b \<and> 0 < current_quantity b \<and> local_date clk < expiry_date b
      \<and> expiry_date b \<le> local_date clk + EXPIRY_WARNING_DAYS cfg"
    unfolding mem_candidates [OF rng] using b j same by blast
  have "filter (\<lambda>a. batch_id a = b_id b) (map (new_expiry_alert cfg clk) ?rows)
      = map (new_expiry_alert cfg clk) (filter (\<lambda>r. b_id (fst r) = b_id b) ?rows)"
    by (simp add: filter_map comp_def new_expiry_alert_simps)
  also have "filter (\<lambda>r. b_id (fst r) = b_id b) ?rows = filter (\<lambda>r. r = rw) ?rows"
  proof (rule filter_cong)
    fix r assume "r \<in> set ?rows"
    then have "r \<in> set (candidates cfg clk d)" using sub by blast
    from candidate_by_id [OF dist b j this]
    show "(b_id (fst r) = b_id b) = (r = rw)" .
  qed simp
  also have "\<dots> = (if rw \<in> set ?rows then [rw] else [])"
    using dis by (rule filter_eq_single)
  finally have new: "filter (\<lambda>a. batch_id a = b_id b) (map (new_expiry_alert cfg clk) ?rows)
      = (if rw \<in> set ?rows then [new_expiry_alert cfg clk rw] else [])"
    by simp
  have mem: "rw \<in> set ?rows \<longleftrightarrow>
      is_active b \<and> 0 < current_quantity b \<and> local_date clk < expiry_date b
      \<and> expiry_date b \<le> local_date clk + EXPIRY_WARNING_DAYS cfg
      \<and> todays_alerts cfg clk d rw = []"
    using cand by (auto simp: fresh_def)
  show ?thesis
    unfolding check_expiring_batches_ok [OF rel rng dist one]
    using new mem by simp
qed

lemma row_of_batch_after_pass:
  assumes rel: "\<forall>op. db_raises e op = None"
    and rng: "in_range (local_date clk) (EXPIRY_WARNING_DAYS cfg)"
      "in_range (local_date clk) (EXPIRY_CRITICAL_DAYS cfg)"
    and dist: "distinct (map b_id (batches d))"
    and one: "\<forall>rw\<in>set (candidates cfg clk d). length (todays_alerts cfg clk d rw) \<le> 1"
    and b: "b \<in> set (batches d)"
  shows "filter (\<lambda>x. b_id x = b_id b) (batches (fst (check_expiring_batches e cfg clk d)))
       = [expire (local_date clk) b]"
proof -
  have inj: "inj_on b_id (set (batches d))"
    using dist by (simp add: distinct_map)
  have "filter (\<lambda>x. b_id x = b_id b) (map (expire (local_date clk)) (batches d))
      = map (expire (local_date clk)) (filter (\<lambda>x. b_id x = b_id b) (batches d))"
    by (simp add: filter_map comp_def)
  also have "filter (\<lambda>x. b_id x = b_id b) (batches d) = filter (\<lambda>x. x = b) (batches d)"
    by (rule filter_cong) (use inj b in \<open>auto dest: inj_onD\<close>)
  also have "\<dots> = [b]"
    using dist b by (simp add: filter_eq_single distinct_map)
  finally show ?thesis
    unfolding check_expiring_batches_ok [OF rel rng dist one] by simp
qed

lemma one_lookup_each:
  assumes "\<forall>bid ty. length (existing_alert (cast_offset clk) d bid ty (local_date clk)) \<le> 1"
  shows "\<forall>rw\<in>set (candidates cfg clk d). length (todays_alerts cfg clk d rw) \<le> 1"
  using assms by (simp add: todays_alerts_def)

lemma no_expiry_alert_today:
  assumes "existing_alert (cast_offset clk) d (b_id (fst rw)) ''expiry_critical''
             (local_date clk) = []"
    and "existing_alert (cast_offset clk) d (b_id (fst rw)) ''expiry_warning''
             (local_date clk) = []"
  shows "todays_alerts cfg clk d rw = []"
  using assms by (simp add: todays_alerts_def tier_type_eq)

subsection \<open>The classification of a batch by its expiry date\<close>

text \<open>
  Claim C2. Let the critical threshold be below the warning threshold, and let the job
  run at a time when the dates of the pass can be computed, the data store raises at no
  statement, the batch ids are distinct and no deduplication lookup finds two rows. Take a
  batch in stock (active, not yet marked expired, of positive quantity, joined with its
  product and branch) for which the store holds no expiry alert dated today or later.
  What the job commits for the batch is determined by the band of the specification in
  which its expiry date lies:
  \<^item> \<open>expired\<close>: the row of the batch is marked expired and inactive, and it gets no
    new alert;
  \<^item> \<open>critical\<close>: the row is left as it is and the batch gets one new alert, of level
    \<open>critical\<close> and type \<open>expiry_critical\<close>;
  \<^item> \<open>warning\<close>: the row is left as it is and the batch gets one new alert, of level
    \<open>warning\<close> and type \<open>expiry_warning\<close>;
  \<^item> \<open>none\<close>: the row is left as it is and the batch gets no new alert.

  The days remaining stored with a new alert are the expiry date minus today. The alerts
  that the batch had before the pass are kept, in front of the new one.
\<close>

theorem expiry_classification:
  assumes "EXPIRY_CRITICAL_DAYS cfg < EXPIRY_WARNING_DAYS cfg"
    and "in_range (local_date clk) (EXPIRY_WARNING_DAYS cfg)"
    and "in_range (local_date clk) (EXPIRY_CRITICAL_DAYS cfg)"
    and "\<forall>op. db_raises e op = None"
    and "distinct (map b_id (batches d))"
    and "\<forall>bid ty. length (existing_alert (cast_offset clk) d bid ty (local_date clk)) \<le> 1"
    and "b \<in> set (batches d)" and "is_active b" and "\<not> is_expired b"
    and "0 < current_quantity b" and "join_row d b = Some rw"
    and "existing_alert (cast_offset clk) d (b_id b) ''expiry_critical'' (local_date clk) = []"
    and "existing_alert (cast_offset clk) d (b_id b) ''expiry_warning'' (local_date clk) = []"
  shows
    "filter (\<lambda>x. b_id x = b_id b) (batches (fst (check_expiring_batches e cfg clk d)))
       = (case spec_tier (EXPIRY_WARNING_DAYS cfg) (EXPIRY_CRITICAL_DAYS cfg)
                 (local_date clk) (expiry_date b) of
            Tier_expired \<Rightarrow> [b\<lparr>is_expired := True, is_active := False\<rparr>]
          | Tier_critical \<Rightarrow> [b]
          | Tier_warning \<Rightarrow> [b]
          | Tier_none \<Rightarrow> [b])
   \<and> map (\<lambda>a. (alert_level a, alert_type a, days_to_expiry a))
       (filter (\<lambda>a. batch_id a = b_id b) (alerts (fst (check_expiring_batches e cfg clk d))))
       = map (\<lambda>a. (alert_level a, alert_type a, days_to_expiry a))
           (filter (\<lambda>a. batch_id a = b_id b) (alerts d))
         @ (case spec_tier (EXPIRY_WARNING_DAYS cfg) (EXPIRY_CRITICAL_DAYS cfg)
                   (local_date clk) (expiry_date b) of
              Tier_expired \<Rightarrow> []
            | Tier_critical \<Rightarrow>
                [(''critical'', ''expiry_critical'', Some (expiry_date b - local_date clk))]
            | Tier_warning \<Rightarrow>
                [(''warning'', ''expiry_warning'', Some (expiry_date b - local_date clk))]
            | Tier_none \<Rightarrow> [])"
proof -
  note one = one_lookup_each [OF assms(6), of cfg]
  have fst: "fst rw = b" using assms(11) by (rule join_row_fst)
  have none: "todays_alerts cfg clk d rw = []"
    using no_expiry_alert_today [of clk d rw cfg] assms(12,13) fst by simp
  have rows: "filter (\<lambda>x. b_id x = b_id b) (batches (fst (check_expiring_batches e cfg clk d)))
      = [if expiry_date b \<le> local_date clk then b\<lparr>is_expired := True, is_active := False\<rparr>
         else b]"
    unfolding row_of_batch_after_pass [OF assms(4,2,3,5) one assms(7)]
    using assms(8,9) by (simp add: expire_def)
  have al: "filter (\<lambda>a. batch_id a = b_id b) (alerts (fst (check_expiring_batches e cfg clk d)))
      = filter (\<lambda>a. batch_id a = b_id b) (alerts d)
        @ (if local_date clk < expiry_date b
              \<and> expiry_date b \<le> local_date clk + EXPIRY_WARNING_DAYS cfg
           then [new_expiry_alert cfg clk rw] else [])"
    unfolding alerts_of_batch_after_pass [OF assms(4,2,3,5) one assms(7,11)]
    using none assms(8,10) by simp
  show ?thesis
    unfolding rows al spec_tier_def
    using assms(1) by (simp add: alert_level_new new_expiry_alert_simps tier_type_eq fst)
qed

text \<open>On 2024-06-10 with the default thresholds 5 and 1: the batch expiring on
  2024-06-11 is critical with one day remaining, the one expiring on 2024-06-15 is a
  warning, the one that expired on 2024-06-09 is marked expired and deactivated.\<close>

theorem expiry_classification_witness:
  "EXPIRY_CRITICAL_DAYS (Settings Map.empty) < EXPIRY_WARNING_DAYS (Settings Map.empty)
   \<and> spec_tier 5 1 (june 10) (june 11) = Tier_critical
   \<and> map (\<lambda>a. (alert_level a, alert_type a, days_to_expiry a))
       (filter (\<lambda>a. batch_id a = 1)
          (alerts (fst (check_expiring_batches calm (Settings Map.empty) (at_noon (june 10)) shelf))))
       = [(''critical'', ''expiry_critical'', Some 1)]
   \<and> spec_tier 5 1 (june 10) (june 15) = Tier_warning
   \<and> map (\<lambda>a. (alert_level a, alert_type a, days_to_expiry a))
       (filter (\<lambda>a. batch_id a = 2)
          (alerts (fst (check_expiring_batches calm (Settings Map.empty) (at_noon (june 10)) shelf))))
       = [(''warning'', ''expiry_warning'', Some 5)]
   \<and> spec_tier 5 1 (june 10) (june 9) = Tier_expired
   \<and> filter (\<lambda>x. b_id x = 3)
       (batches (fst (check_expiring_batches calm (Settings Map.empty) (at_noon (june 10)) shelf)))
       = [(lot 3 9 (june 9))\<lparr>is_expired := True, is_active := False\<rparr>]
   \<and> filter (\<lambda>a. batch_id a = 3)
       (alerts (fst (check_expiring_batches calm (Settings Map.empty) (at_noon (june 10)) shelf)))
       = []"
proof -
  let ?cfg = "Settings Map.empty"
  let ?clk = "at_noon (june 10)"
  have h1: "EXPIRY_CRITICAL_DAYS ?cfg < EXPIRY_WARNING_DAYS ?cfg" by simp
  have h2: "in_range (local_date ?clk) (EXPIRY_WARNING_DAYS ?cfg)"
    and h3: "in_range (local_date ?clk) (EXPIRY_CRITICAL_DAYS ?cfg)" by simp_all
  have h4: "\<forall>op. db_raises calm op = None" by simp
  have h5: "distinct (map b_id (batches shelf))" by simp
  have h6: "\<forall>bid ty. length (existing_alert (cast_offset ?clk) shelf bid ty (local_date ?clk)) \<le> 1"
    by (simp add: existing_alert_def)
  have t1: "spec_tier 5 1 (june 10) (june 11) = Tier_critical"
    and t2: "spec_tier 5 1 (june 10) (june 15) = Tier_warning"
    and t3: "spec_tier 5 1 (june 10) (june 9) = Tier_expired"
    by (simp_all add: spec_tier_def june_eq)
  note T = expiry_classification [of ?cfg ?clk calm shelf, OF h1 h2 h3 h4 h5 h6]
  have w1: "map (\<lambda>a. (alert_level a, alert_type a, days_to_expiry a))
       (filter (\<lambda>a. batch_id a = 1) (alerts (fst (check_expiring_batches calm ?cfg ?clk shelf))))
       = [(''critical'', ''expiry_critical'', Some 1)]"
    using T [of "lot 1 3 (june 11)" "(lot 1 3 (june 11), milk, depot)"] t1
    by (simp add: june_eq existing_alert_def)
  have w2: "map (\<lambda>a. (alert_level a, alert_type a, days_to_expiry a))
       (filter (\<lambda>a. batch_id a = 2) (alerts (fst (check_expiring_batches calm ?cfg ?clk shelf))))
       = [(''warning'', ''expiry_warning'', Some 5)]"
    using T [of "lot 2 4 (june 15)" "(lot 2 4 (june 15), milk, depot)"] t2
    by (simp add: june_eq existing_alert_def)
  have w3: "filter (\<lambda>x. b_id x = 3) (batches (fst (check_expiring_batches calm ?cfg ?clk shelf)))
       = [(lot 3 9 (june 9))\<lparr>is_expired := True, is_active := False\<rparr>]
     \<and> filter (\<lambda>a. batch_id a = 3) (alerts (fst (check_expiring_batches calm ?cfg ?clk shelf)))
       = []"
    using T [of "lot 3 9 (june 9)" "(lot 3 9 (june 9), milk, depot)"] t3
    by (simp add: june_eq existing_alert_def)
  show ?thesis
    using h1 t1 t2 t3 w1 w2 w3 by simp
qed

subsection \<open>The candidates of the expiry job\<close>

text \<open>On a store without alerts, a pass that meets no failure creates one alert for each
  candidate, in the order of the first query.\<close>

lemma alerts_on_empty_store:
  assumes rel: "\<forall>op. db_raises e op = None"
    and rng: "in_range (local_date clk) (EXPIRY_WARNING_DAYS cfg)"
      "in_range (local_date clk) (EXPIRY_CRITICAL_DAYS cfg)"
    and dist: "distinct (map b_id (batches d))"
    and empty: "alerts d = []"
  shows "alerts (fst (check_expiring_batches e cfg clk d))
       = map (new_expiry_alert cfg clk) (candidates cfg clk d)"
proof -
  have none: "\<And>rw. todays_alerts cfg clk d rw = []"
    using empty by (simp add: todays_alerts_def existing_alert_def)
  then have one: "\<forall>rw\<in>set (candidates cfg clk d). length (todays_alerts cfg clk d rw) \<le> 1"
    by simp
  show ?thesis
    unfolding check_expiring_batches_ok [OF rel rng dist one]
    using empty none by (simp add: fresh_def)
qed

text \<open>
  Claim C6. The batches that the job considers for a warning or critical alert are those
  that are active, have a positive quantity and expire after today and no later than
  today plus the warning days.
  \<^item> A batch outside this selection (inactive, or of quantity zero, or expiring today or
    earlier, or later than the window) gets no expiry alert from any invocation: the
    alerts with its batch id are afterwards those that were there before (batch ids being
    distinct).
  \<^item> In a pass that meets no failure (the dates of the pass can be computed, the data
    store raises nowhere, batch ids are distinct, no deduplication lookup finds two
    rows), every batch of the selection that is joined with its product and branch and
    for which the lookup finds nothing gets its alert.
  \<^item> On a store without alerts in which every batch has its product and branch, the
    alerts that such a pass commits are, one for one and in the order of the table, those
    of the batches of the selection.
\<close>

theorem expiry_candidates:
  "(distinct (map b_id (batches d)) \<longrightarrow>
      (\<forall>b\<in>set (batches d).
         \<not> (is_active b \<and> 0 < current_quantity b \<and> local_date clk < expiry_date b
            \<and> expiry_date b \<le> local_date clk + EXPIRY_WARNING_DAYS cfg) \<longrightarrow>
         filter (\<lambda>a. batch_id a = b_id b) (alerts (fst (check_expiring_batches e cfg clk d)))
           = filter (\<lambda>a. batch_id a = b_id b) (alerts d)))
   \<and> ((\<forall>op. db_raises e op = None) \<longrightarrow>
       in_range (local_date clk) (EXPIRY_WARNING_DAYS cfg) \<longrightarrow>
       in_range (local_date clk) (EXPIRY_CRITICAL_DAYS cfg) \<longrightarrow>
       distinct (map b_id (batches d)) \<longrightarrow>
       (\<forall>bid ty. length (existing_alert (cast_offset clk) d bid ty (local_date clk)) \<le> 1) \<longrightarrow>
       (\<forall>b\<in>set (batches d). \<forall>rw.
          is_active b \<and> 0 < current_quantity b \<and> local_date clk < expiry_date b
            \<and> expiry_date b \<le> local_date clk + EXPIRY_WARNING_DAYS cfg \<longrightarrow>
          join_row d b = Some rw \<longrightarrow>
          existing_alert (cast_offset clk) d (b_id b)
              (alert_type (new_expiry_alert cfg clk rw)) (local_date clk) = [] \<longrightarrow>
          new_expiry_alert cfg clk rw
            \<in> set (alerts (fst (check_expiring_batches e cfg clk d)))))
   \<and> ((\<forall>op. db_raises e op = None) \<longrightarrow>
       in_range (local_date clk) (EXPIRY_WARNING_DAYS cfg) \<longrightarrow>
       in_range (local_date clk) (EXPIRY_CRITICAL_DAYS cfg) \<longrightarrow>
       distinct (map b_id (batches d)) \<longrightarrow>
       (\<forall>b\<in>set (batches d). join_row d b \<noteq> None) \<longrightarrow>
       alerts d = [] \<longrightarrow>
       map batch_id (alerts (fst (check_expiring_batches e cfg clk d)))
         = map b_id
             (filter (\<lambda>b. is_active b \<and> 0 < current_quantity b \<and> local_date clk < expiry_date b
                           \<and> expiry_date b \<le> local_date clk + EXPIRY_WARNING_DAYS cfg)
                (batches d)))"
proof -
  have p1: "filter (\<lambda>a. batch_id a = b_id b) (alerts (fst (check_expiring_batches e cfg clk d)))
           = filter (\<lambda>a. batch_id a = b_id b) (alerts d)"
    if "distinct (map b_id (batches d))" and "b \<in> set (batches d)"
      and "\<not> (is_active b \<and> 0 < current_quantity b \<and> local_date clk < expiry_date b
            \<and> expiry_date b \<le> local_date clk + EXPIRY_WARNING_DAYS cfg)" for b
    using that by (rule alerts_of_non_candidate)
  have p2: "new_expiry_alert cfg clk rw
            \<in> set (alerts (fst (check_expiring_batches e cfg clk d)))"
    if rel: "\<forall>op. db_raises e op = None"
      and rng: "in_range (local_date clk) (EXPIRY_WARNING_DAYS cfg)"
        "in_range (local_date clk) (EXPIRY_CRITICAL_DAYS cfg)"
      and dist: "distinct (map b_id (batches d))"
      and one: "\<forall>bid ty. length (existing_alert (cast_offset clk) d bid ty (local_date clk)) \<le> 1"
      and b: "b \<in> set (batches d)"
      and sel: "is_active b \<and> 0 < current_quantity b \<and> local_date clk < expiry_date b
            \<and> expiry_date b \<le> local_date clk + EXPIRY_WARNING_DAYS cfg"
      and j: "join_row d b = Some rw"
      and none: "existing_alert (cast_offset clk) d (b_id b)
              (alert_type (new_expiry_alert cfg clk rw)) (local_date clk) = []"
    for b rw
  proof -
    have fst: "fst rw = b" using j by (rule join_row_fst)
    have t: "todays_alerts cfg clk d rw = []"
      using none fst by (simp add: todays_alerts_def new_expiry_alert_simps)
    have "new_expiry_alert cfg clk rw
        \<in> set (filter (\<lambda>a. batch_id a = b_id b)
                 (alerts (fst (check_expiring_batches e cfg clk d))))"
      unfolding alerts_of_batch_after_pass [OF rel rng dist one_lookup_each [OF one] b j]
      using sel t by simp
    then show ?thesis by simp
  qed
  have p3: "map batch_id (alerts (fst (check_expiring_batches e cfg clk d)))
         = map b_id
             (filter (\<lambda>b. is_active b \<and> 0 < current_quantity b \<and> local_date clk < expiry_date b
                           \<and> expiry_date b \<le> local_date clk + EXPIRY_WARNING_DAYS cfg)
                (batches d))"
    if rel: "\<forall>op. db_raises e op = None"
      and rng: "in_range (local_date clk) (EXPIRY_WARNING_DAYS cfg)"
        "in_range (local_date clk) (EXPIRY_CRITICAL_DAYS cfg)"
      and dist: "distinct (map b_id (batches d))"
      and fk: "\<forall>b\<in>set (batches d). join_row d b \<noteq> None"
      and empty: "alerts d = []"
  proof -
    have "map batch_id (map (new_expiry_alert cfg clk) (candidates cfg clk d))
        = map b_id (map fst (candidates cfg clk d))"
      by (simp add: comp_def new_expiry_alert_simps)
    also have "map fst (candidates cfg clk d)
        = filter (\<lambda>b. is_active b \<and> 0 < current_quantity b \<and> local_date clk < expiry_date b
                      \<and> expiry_date b \<le> local_date clk + EXPIRY_WARNING_DAYS cfg) (batches d)"
      unfolding map_fst_candidates [OF rng] using fk by (intro filter_True) simp
    finally show ?thesis
      unfolding alerts_on_empty_store [OF rel rng dist empty] .
  qed
  show ?thesis using p1 p2 p3 by blast
qed

text \<open>On the shelf the first two batches are selected and alerted; the fourth batch has
  quantity zero and expires within the window: it gets no alert.\<close>

theorem expiry_candidates_witness:
  "map batch_id
     (alerts (fst (check_expiring_batches calm (Settings Map.empty) (at_noon (june 10)) shelf)))
     = [1, 2]
   \<and> filter (\<lambda>b. is_active b \<and> 0 < current_quantity b \<and> june 10 < expiry_date b
                  \<and> expiry_date b \<le> june 10 + EXPIRY_WARNING_DAYS (Settings Map.empty))
        (batches shelf) = [lot 1 3 (june 11), lot 2 4 (june 15)]
   \<and> new_expiry_alert (Settings Map.empty) (at_noon (june 10)) (lot 2 4 (june 15), milk, depot)
       \<in> set (alerts (fst (check_expiring_batches calm (Settings Map.empty) (at_noon (june 10))
            shelf)))
   \<and> lot 4 0 (june 12) \<in> set (batches shelf)
   \<and> june 10 < expiry_date (lot 4 0 (june 12))
   \<and> expiry_date (lot 4 0 (june 12)) \<le> june 10 + EXPIRY_WARNING_DAYS (Settings Map.empty)
   \<and> filter (\<lambda>a. batch_id a = 4)
        (alerts (fst (check_expiring_batches calm (Settings Map.empty) (at_noon (june 10)) shelf)))
       = []"
proof -
  let ?cfg = "Settings Map.empty"
  let ?clk = "at_noon (june 10)"
  let ?d1 = "fst (check_expiring_batches calm ?cfg ?clk shelf)"
  note T = expiry_candidates [of shelf ?clk ?cfg calm]
  have h1: "\<forall>op. db_raises calm op = None" by simp
  have h2: "in_range (local_date ?clk) (EXPIRY_WARNING_DAYS ?cfg)"
    and h3: "in_range (local_date ?clk) (EXPIRY_CRITICAL_DAYS ?cfg)" by simp_all
  have h4: "distinct (map b_id (batches shelf))" by simp
  have h5: "\<forall>bid ty. length (existing_alert (cast_offset ?clk) shelf bid ty (local_date ?clk)) \<le> 1"
    by (simp add: existing_alert_def)
  have fk: "\<forall>b\<in>set (batches shelf). join_row shelf b \<noteq> None" by simp
  have em: "alerts shelf = []" by simp
  have sel: "filter (\<lambda>b. is_active b \<and> 0 < current_quantity b \<and> june 10 < expiry_date b
                  \<and> expiry_date b \<le> june 10 + EXPIRY_WARNING_DAYS ?cfg)
        (batches shelf) = [lot 1 3 (june 11), lot 2 4 (june 15)]"
    by (simp add: june_eq)
  have "map batch_id (alerts ?d1)
      = map b_id (filter (\<lambda>b. is_active b \<and> 0 < current_quantity b
                    \<and> local_date ?clk < expiry_date b
                    \<and> expiry_date b \<le> local_date ?clk + EXPIRY_WARNING_DAYS ?cfg)
                (batches shelf))"
    using T h1 h2 h3 h4 fk em by blast
  then have a1: "map batch_id (alerts ?d1) = [1, 2]"
    by (simp add: june_eq)
  have m2: "lot 2 4 (june 15) \<in> set (batches shelf)"
    and m4: "lot 4 0 (june 12) \<in> set (batches shelf)" by simp_all
  have "\<forall>b\<in>set (batches shelf). \<forall>rw.
          is_active b \<and> 0 < current_quantity b \<and> local_date ?clk < expiry_date b
            \<and> expiry_date b \<le> local_date ?clk + EXPIRY_WARNING_DAYS ?cfg \<longrightarrow>
          join_row shelf b = Some rw \<longrightarrow>
          existing_alert (cast_offset ?clk) shelf (b_id b)
              (alert_type (new_expiry_alert ?cfg ?clk rw)) (local_date ?clk) = [] \<longrightarrow>
          new_expiry_alert ?cfg ?clk rw \<in> set (alerts ?d1)"
    using T h1 h2 h3 h4 h5 by blast
  from this [rule_format, OF m2, of "(lot 2 4 (june 15), milk, depot)"]
  have a2: "new_expiry_alert ?cfg ?clk (lot 2 4 (june 15), milk, depot) \<in> set (alerts ?d1)"
    by (simp add: june_eq existing_alert_def)
  have "\<forall>b\<in>set (batches shelf).
         \<not> (is_active b \<and> 0 < current_quantity b \<and> local_date ?clk < expiry_date b
            \<and> expiry_date b \<le> local_date ?clk + EXPIRY_WARNING_DAYS ?cfg) \<longrightarrow>
         filter (\<lambda>a. batch_id a = b_id b) (alerts ?d1)
           = filter (\<lambda>a. batch_id a = b_id b) (alerts shelf)"
    using T h4 by blast
  from this [rule_format, OF m4] have a3: "filter (\<lambda>a. batch_id a = 4) (alerts ?d1) = []"
    by simp
  have a4: "june 10 < expiry_date (lot 4 0 (june 12))
      \<and> expiry_date (lot 4 0 (june 12)) \<le> june 10 + EXPIRY_WARNING_DAYS ?cfg"
    by (simp add: june_eq)
  show ?thesis
    using a1 sel a2 m4 a3 a4 by simp
qed

subsection \<open>The thresholds of the configuration\<close>

text \<open>
  Claim C7 (as amended). The configuration is not validated: \<open>Settings\<close> takes the two
  thresholds from the environment as they are given, whatever their order, and neither
  rejects nor reorders them; the expiry job then runs with them.
  \<^item> When the critical threshold is not below the warning threshold and the dates of the
    pass can be computed, a pass that meets no failure commits, for every batch of the
    warning window that has no critical alert dated today or later, one new alert of
    level \<open>critical\<close> and type \<open>expiry_critical\<close>.
  \<^item> When a threshold is so large or so small that today plus the threshold is no date,
    every pass raises \<open>OverflowError\<close> before its first query and is rolled back.
\<close>

theorem thresholds_used_as_given:
  "EXPIRY_WARNING_DAYS
     (Settings (environ(''EXPIRY_WARNING_DAYS'' \<mapsto> w, ''EXPIRY_CRITICAL_DAYS'' \<mapsto> c))) = w
   \<and> EXPIRY_CRITICAL_DAYS
     (Settings (environ(''EXPIRY_WARNING_DAYS'' \<mapsto> w, ''EXPIRY_CRITICAL_DAYS'' \<mapsto> c))) = c
   \<and> (EXPIRY_WARNING_DAYS cfg \<le> EXPIRY_CRITICAL_DAYS cfg \<longrightarrow>
       (\<forall>op. db_raises e op = None) \<longrightarrow>
       in_range (local_date clk) (EXPIRY_WARNING_DAYS cfg) \<longrightarrow>
       in_range (local_date clk) (EXPIRY_CRITICAL_DAYS cfg) \<longrightarrow>
       distinct (map b_id (batches d)) \<longrightarrow>
       (\<forall>bid ty. length (existing_alert (cast_offset clk) d bid ty (local_date clk)) \<le> 1) \<longrightarrow>
       (\<forall>b\<in>set (batches d). \<forall>rw.
          is_active b \<and> 0 < current_quantity b \<and> local_date clk < expiry_date b
            \<and> expiry_date b \<le> local_date clk + EXPIRY_WARNING_DAYS cfg \<longrightarrow>
          join_row d b = Some rw \<longrightarrow>
          existing_alert (cast_offset clk) d (b_id b) ''expiry_critical'' (local_date clk) = []
            \<longrightarrow>
          map (\<lambda>a. (alert_level a, alert_type a))
            (filter (\<lambda>a. batch_id a = b_id b)
               (alerts (fst (check_expiring_batches e cfg clk d))))
            = map (\<lambda>a. (alert_level a, alert_type a))
                (filter (\<lambda>a. batch_id a = b_id b) (alerts d))
              @ [(''critical'', ''expiry_critical'')]))
   \<and> (\<not> (in_range (local_date clk) (EXPIRY_WARNING_DAYS cfg)
           \<and> in_range (local_date clk) (EXPIRY_CRITICAL_DAYS cfg)) \<longrightarrow>
        (\<exists>msg. expiry_pass e cfg clk (begin_pass ''Starting expiry check task...'' d)
                  = Inl (OverflowError msg, begin_pass ''Starting expiry check task...'' d))
        \<and> fst (check_expiring_batches e cfg clk d) = d)"
proof -
  have p3: "map (\<lambda>a. (alert_level a, alert_type a))
            (filter (\<lambda>a. batch_id a = b_id b)
               (alerts (fst (check_expiring_batches e cfg clk d))))
            = map (\<lambda>a. (alert_level a, alert_type a))
                (filter (\<lambda>a. batch_id a = b_id b) (alerts d))
              @ [(''critical'', ''expiry_critical'')]"
    if le: "EXPIRY_WARNING_DAYS cfg \<le> EXPIRY_CRITICAL_DAYS cfg"
      and rel: "\<forall>op. db_raises e op = None"
      and rng: "in_range (local_date clk) (EXPIRY_WARNING_DAYS cfg)"
        "in_range (local_date clk) (EXPIRY_CRITICAL_DAYS cfg)"
      and dist: "distinct (map b_id (batches d))"
      and one: "\<forall>bid ty. length (existing_alert (cast_offset clk) d bid ty (local_date clk)) \<le> 1"
      and b: "b \<in> set (batches d)"
      and sel: "is_active b \<and> 0 < current_quantity b \<and> local_date clk < expiry_date b
            \<and> expiry_date b \<le> local_date clk + EXPIRY_WARNING_DAYS cfg"
      and j: "join_row d b = Some rw"
      and no: "existing_alert (cast_offset clk) d (b_id b) ''expiry_critical''
                 (local_date clk) = []"
    for b rw
  proof -
    have fst: "fst rw = b" using j by (rule join_row_fst)
    have crit: "expiry_date (fst rw) - local_date clk \<le> EXPIRY_CRITICAL_DAYS cfg"
      using sel le fst by simp
    have none: "todays_alerts cfg clk d rw = []"
      using no fst crit by (simp add: todays_alerts_def tier_type_eq)
    show ?thesis
      unfolding alerts_of_batch_after_pass [OF rel rng dist one_lookup_each [OF one] b j]
      using none sel crit by (simp add: alert_level_new new_expiry_alert_simps tier_type_eq)
  qed
  have p4: "(\<exists>msg. expiry_pass e cfg clk (begin_pass ''Starting expiry check task...'' d)
                  = Inl (OverflowError msg, begin_pass ''Starting expiry check task...'' d))
        \<and> fst (check_expiring_batches e cfg clk d) = d"
    if "\<not> (in_range (local_date clk) (EXPIRY_WARNING_DAYS cfg)
           \<and> in_range (local_date clk) (EXPIRY_CRITICAL_DAYS cfg))"
    using expiry_pass_out_of_range [OF that, of "begin_pass ''Starting expiry check task...'' d"]
    unfolding fst_check_expiring_batches by auto
  have p0: "EXPIRY_WARNING_DAYS
     (Settings (environ(''EXPIRY_WARNING_DAYS'' \<mapsto> w, ''EXPIRY_CRITICAL_DAYS'' \<mapsto> c))) = w
   \<and> EXPIRY_CRITICAL_DAYS
     (Settings (environ(''EXPIRY_WARNING_DAYS'' \<mapsto> w, ''EXPIRY_CRITICAL_DAYS'' \<mapsto> c))) = c"
    by (simp add: Settings_def)
  show ?thesis using p0 p3 p4 by blast
qed

lemma swapped_simps [simp]:
  "EXPIRY_WARNING_DAYS swapped = 5" "EXPIRY_CRITICAL_DAYS swapped = 7"
  by (simp_all add: swapped_def Settings_def)

lemma far_simps [simp]:
  "EXPIRY_WARNING_DAYS far = 5" "EXPIRY_CRITICAL_DAYS far = 3000000"
  by (simp_all add: far_def Settings_def)

lemma candidates_swapped:
  "candidates swapped (at_noon (june 10)) shelf =
     [(lot 1 3 (june 11), milk, depot), (lot 2 4 (june 15), milk, depot)]"
proof -
  have "candidates swapped (at_noon (june 10)) shelf
      = batches_to_alert (june 10) (june 10 + 5) shelf"
    using candidates_in_range [of "at_noon (june 10)" swapped shelf] by simp
  then show ?thesis
    by (simp add: batches_to_alert_def List.map_filter_simps june_eq)
qed

text \<open>The environment sets the critical threshold to 7 and leaves the warning threshold
  at 5: the batch expiring in five days gets a critical alert. With a critical threshold
  of 3000000 days the pass of 2024-06-10 is rolled back.\<close>

theorem thresholds_used_as_given_witness:
  "EXPIRY_WARNING_DAYS
     (Settings [''EXPIRY_WARNING_DAYS'' \<mapsto> 5, ''EXPIRY_CRITICAL_DAYS'' \<mapsto> 7]) = 5
   \<and> EXPIRY_CRITICAL_DAYS
     (Settings [''EXPIRY_WARNING_DAYS'' \<mapsto> 5, ''EXPIRY_CRITICAL_DAYS'' \<mapsto> 7]) = 7
   \<and> map (\<lambda>a. (alert_level a, alert_type a))
       (filter (\<lambda>a. batch_id a = 2)
          (alerts (fst (check_expiring_batches calm swapped (at_noon (june 10)) shelf))))
       = [(''critical'', ''expiry_critical'')]
   \<and> fst (check_expiring_batches calm far (at_noon (june 10)) shelf) = shelf"
proof -
  let ?clk = "at_noon (june 10)"
  note T = thresholds_used_as_given [of Map.empty 5 7 swapped calm ?clk shelf]
  note U = thresholds_used_as_given [of Map.empty 5 7 far calm ?clk shelf]
  have le: "EXPIRY_WARNING_DAYS swapped \<le> EXPIRY_CRITICAL_DAYS swapped" by simp
  have h1: "\<forall>op. db_raises calm op = None" by simp
  have h2: "in_range (local_date ?clk) (EXPIRY_WARNING_DAYS swapped)"
    and h3: "in_range (local_date ?clk) (EXPIRY_CRITICAL_DAYS swapped)" by simp_all
  have h4: "distinct (map b_id (batches shelf))" by simp
  have h5: "\<forall>bid ty. length (existing_alert (cast_offset ?clk) shelf bid ty (local_date ?clk)) \<le> 1"
    by (simp add: existing_alert_def)
  have m2: "lot 2 4 (june 15) \<in> set (batches shelf)" by simp
  have "\<forall>b\<in>set (batches shelf). \<forall>rw.
          is_active b \<and> 0 < current_quantity b \<and> local_date ?clk < expiry_date b
            \<and> expiry_date b \<le> local_date ?clk + EXPIRY_WARNING_DAYS swapped \<longrightarrow>
          join_row shelf b = Some rw \<longrightarrow>
          existing_alert (cast_offset ?clk) shelf (b_id b) ''expiry_critical'' (local_date ?clk)
            = [] \<longrightarrow>
          map (\<lambda>a. (alert_level a, alert_type a))
            (filter (\<lambda>a. batch_id a = b_id b)
               (alerts (fst (check_expiring_batches calm swapped ?clk shelf))))
            = map (\<lambda>a. (alert_level a, alert_type a))
                (filter (\<lambda>a. batch_id a = b_id b) (alerts shelf))
              @ [(''critical'', ''expiry_critical'')]"
    using T le h1 h2 h3 h4 h5 by blast
  from this [rule_format, OF m2, of "(lot 2 4 (june 15), milk, depot)"]
  have a1: "map (\<lambda>a. (alert_level a, alert_type a))
       (filter (\<lambda>a. batch_id a = 2)
          (alerts (fst (check_expiring_batches calm swapped ?clk shelf))))
       = [(''critical'', ''expiry_critical'')]"
    by (simp add: june_eq existing_alert_def)
  have "\<not> in_range (local_date ?clk) (EXPIRY_CRITICAL_DAYS far)"
    by (simp add: in_range_def june_eq)
  then have a2: "fst (check_expiring_batches calm far ?clk shelf) = shelf"
    using U by blast
  show ?thesis
    using T a1 a2 by blast
qed

text \<open>With a critical threshold of 7 and a warning threshold of 5 the configuration is
  taken and the job runs: it commits two alerts, both critical.\<close>

theorem thresholds_used_as_given_counterexample:
  "EXPIRY_CRITICAL_DAYS swapped \<ge> EXPIRY_WARNING_DAYS swapped
   \<and> alerts (fst (check_expiring_batches calm swapped (at_noon (june 10)) shelf)) =
       [new_expiry_alert swapped (at_noon (june 10)) (lot 1 3 (june 11), milk, depot),
        new_expiry_alert swapped (at_noon (june 10)) (lot 2 4 (june 15), milk, depot)]
   \<and> alert_type (new_expiry_alert swapped (at_noon (june 10))
        (lot 1 3 (june 11), milk, depot)) = ''expiry_critical''
   \<and> alert_type (new_expiry_alert swapped (at_noon (june 10))
        (lot 2 4 (june 15), milk, depot)) = ''expiry_critical''"
proof -
  have h1: "\<forall>op. db_raises calm op = None" by simp
  have h2: "in_range (local_date (at_noon (june 10))) (EXPIRY_WARNING_DAYS swapped)"
    and h3: "in_range (local_date (at_noon (june 10))) (EXPIRY_CRITICAL_DAYS swapped)"
    by simp_all
  have h4: "distinct (map b_id (batches shelf))" by simp
  have h5: "alerts shelf = []" by simp
  have "alerts (fst (check_expiring_batches calm swapped (at_noon (june 10)) shelf)) =
       [new_expiry_alert swapped (at_noon (june 10)) (lot 1 3 (june 11), milk, depot),
        new_expiry_alert swapped (at_noon (june 10)) (lot 2 4 (june 15), milk, depot)]"
    unfolding alerts_on_empty_store [OF h1 h2 h3 h4 h5]
    by (simp add: candidates_swapped)
  then show ?thesis
    by (simp add: new_expiry_alert_simps tier_type_eq june_eq)
qed

subsection \<open>Two passes on the same day, and a pass on the next day\<close>

text \<open>What a pass that met no failure has committed, seen by a later deduplication
  lookup with the same or another date and offset.\<close>

lemma existing_alert_after:
  assumes dist: "distinct (map b_id (batches d))"
    and mem: "rw \<in> set (candidates cfg clk d)"
    and al: "alerts d' = alerts d
               @ map (new_expiry_alert cfg clk) (fresh cfg clk d (candidates cfg clk d))"
  shows "existing_alert offset d' (b_id (fst rw)) ty t
       = existing_alert offset d (b_id (fst rw)) ty t
         @ (if todays_alerts cfg clk d rw = [] \<and> ty = tier_type cfg clk rw
               \<and> cast_date offset t \<le> server_now clk
            then [new_expiry_alert cfg clk rw] else [])"
proof -
  have sub: "set (fresh cfg clk d (candidates cfg clk d)) \<subseteq> set (candidates cfg clk d)"
    and dis: "distinct (fresh cfg clk d (candidates cfg clk d))"
    using distinct_candidates [OF dist] by (simp_all add: fresh_def)
  show ?thesis
    unfolding existing_alert_def al filter_append
      filter_new_alerts [OF distinct_candidates_ids [OF dist] mem sub dis]
    using mem by (simp add: fresh_def)
qed

text \<open>After a pass that met no failure every candidate has exactly one alert of its type
  dated today or later, provided the server's time of the pass is not before the
  midnight that the date of the process is cast to.\<close>

lemma one_alert_after_pass:
  assumes dist: "distinct (map b_id (batches d))"
    and one: "\<forall>rw\<in>set (candidates cfg clk d). length (todays_alerts cfg clk d rw) \<le> 1"
    and al: "alerts d1 = alerts d
               @ map (new_expiry_alert cfg clk) (fresh cfg clk d (candidates cfg clk d))"
    and mem: "rw \<in> set (candidates cfg clk d)"
    and agree: "cast_date (cast_offset clk) (local_date clk) \<le> server_now clk"
  shows "length (todays_alerts cfg clk d1 rw) = 1"
proof -
  have "length (todays_alerts cfg clk d rw) \<le> 1" using one mem by simp
  then show ?thesis
    unfolding todays_alerts_def [of cfg clk d1]
      existing_alert_after [OF dist mem al]
    by (cases "todays_alerts cfg clk d rw")
      (simp_all add: agree todays_alerts_def [symmetric])
qed

lemma batches_to_alert_after_expire:
  assumes "products d' = products d" and "branches d' = branches d"
    and "batches d' = map (expire t) (batches d)" and "t \<le> today"
  shows "batches_to_alert today wd d' = batches_to_alert today wd d"
proof -
  let ?Q = "\<lambda>b. is_active b = True \<and> expiry_date b > today
                \<and> expiry_date b \<le> wd \<and> current_quantity b > 0"
  have q: "\<And>b. ?Q (expire t b) = ?Q b"
    using assms(4) by (auto simp: expire_def)
  have "filter ?Q (map (expire t) (batches d)) = map (expire t) (filter ?Q (batches d))"
    using q by (simp add: filter_map comp_def)
  also have "\<dots> = filter ?Q (batches d)"
    using assms(4) by (intro map_idI) (simp add: expire_later)
  finally have f: "filter ?Q (batches d') = filter ?Q (batches d)"
    using assms(3) by simp
  have j: "join_row d' = join_row d"
    using assms(1,2) by (intro ext) (rule join_row_cong)
  show ?thesis
    unfolding batches_to_alert_def f j ..
qed

text \<open>The transition of the expired batches leaves the candidates of the same day and
  of later days as they are.\<close>

lemma candidates_after_expire:
  assumes "products d' = products d" and "branches d' = branches d"
    and "batches d' = map (expire t) (batches d)" and "t \<le> local_date clk"
  shows "candidates cfg clk d' = candidates cfg clk d"
  unfolding candidates_def batches_to_alert_after_expire [OF assms] ..

lemma candidates_same_day:
  "local_date clk2 = local_date clk \<Longrightarrow> candidates cfg clk2 d = candidates cfg clk d"
  by (simp add: candidates_def split: sum.splits)

lemma todays_alerts_same_day:
  "local_date clk2 = local_date clk \<Longrightarrow> cast_offset clk2 = cast_offset clk \<Longrightarrow>
   todays_alerts cfg clk2 d rw = todays_alerts cfg clk d rw"
  by (simp add: todays_alerts_def tier_type_def)

text \<open>When every candidate already has an alert, an invocation creates none.\<close>

lemma fst_check_nothing_new:
  assumes "\<forall>rw\<in>set (candidates cfg clk d). todays_alerts cfg clk d rw \<noteq> []"
  shows "fst (check_expiring_batches e cfg clk d) = d
       \<or> fst (check_expiring_batches e cfg clk d) = mark_expired (local_date clk) d"
proof (cases "in_range (local_date clk) (EXPIRY_WARNING_DAYS cfg)
    \<and> in_range (local_date clk) (EXPIRY_CRITICAL_DAYS cfg)")
  case False
  from expiry_pass_out_of_range [OF this, of "begin_pass ''Starting expiry check task...'' d"]
  show ?thesis
    unfolding fst_check_expiring_batches by auto
next
  case True
  then have rng: "in_range (local_date clk) (EXPIRY_WARNING_DAYS cfg)"
    "in_range (local_date clk) (EXPIRY_CRITICAL_DAYS cfg)" by simp_all
  let ?st0 = "begin_pass ''Starting expiry check task...'' d"
  have "alert_batches e cfg clk (candidates cfg clk d) ?st0 = Inr ?st0
      \<or> (\<exists>err. alert_batches e cfg clk (candidates cfg clk d) ?st0 = Inl (err, ?st0))"
    using assms by (intro alert_batches_nothing_new) simp
  then show ?thesis
    unfolding fst_check_expiring_batches expiry_pass_in_range [OF rng]
    by (auto split: option.splits sum.splits)
qed

text \<open>A second run on the same day, whatever happens in it, leaves the rows as the first
  run committed them, provided the first run met no failure, its server time was not
  before the midnight that its date was cast to, and the second run has the same date
  and the same cast.\<close>

lemma second_pass_same_day:
  assumes rel: "\<forall>op. db_raises e op = None"
    and rng: "in_range (local_date clk) (EXPIRY_WARNING_DAYS cfg)"
      "in_range (local_date clk) (EXPIRY_CRITICAL_DAYS cfg)"
    and dist: "distinct (map b_id (batches d))"
    and one: "\<forall>rw\<in>set (candidates cfg clk d). length (todays_alerts cfg clk d rw) \<le> 1"
    and agree: "cast_date (cast_offset clk) (local_date clk) \<le> server_now clk"
    and day: "local_date clk2 = local_date clk" and cast: "cast_offset clk2 = cast_offset clk"
  shows "fst (check_expiring_batches e2 cfg clk2 (fst (check_expiring_batches e cfg clk d)))
       = fst (check_expiring_batches e cfg clk d)"
proof -
  let ?d1 = "fst (check_expiring_batches e cfg clk d)"
  have d1: "?d1 = d\<lparr>batches := map (expire (local_date clk)) (batches d),
                    alerts := alerts d @ map (new_expiry_alert cfg clk)
                      (fresh cfg clk d (candidates cfg clk d))\<rparr>"
    by (rule check_expiring_batches_ok [OF rel rng dist one])
  have c: "candidates cfg clk ?d1 = candidates cfg clk d"
    by (rule candidates_after_expire [where t = "local_date clk"]) (simp_all add: d1)
  have al: "alerts ?d1 = alerts d @ map (new_expiry_alert cfg clk)
               (fresh cfg clk d (candidates cfg clk d))"
    by (simp add: d1)
  have "\<forall>rw\<in>set (candidates cfg clk2 ?d1). todays_alerts cfg clk2 ?d1 rw \<noteq> []"
  proof
    fix rw assume "rw \<in> set (candidates cfg clk2 ?d1)"
    then have "rw \<in> set (candidates cfg clk d)"
      using c candidates_same_day [OF day] by simp
    from one_alert_after_pass [OF dist one al this agree]
    show "todays_alerts cfg clk2 ?d1 rw \<noteq> []"
      unfolding todays_alerts_same_day [OF day cast] by auto
  qed
  from fst_check_nothing_new [OF this, of e2]
  have "fst (check_expiring_batches e2 cfg clk2 ?d1) = ?d1
      \<or> fst (check_expiring_batches e2 cfg clk2 ?d1) = mark_expired (local_date clk) ?d1"
    using day by simp
  moreover have "mark_expired (local_date clk) ?d1 = ?d1"
    unfolding mark_expired_eq by (subst (1 2 3) d1) (simp add: comp_def expire_idem)
  ultimately show ?thesis by auto
qed

text \<open>A run on a later day creates a new alert for a batch that is a candidate again,
  although the alert of the day before is there, provided every alert committed so far
  was created before the midnight that the later date is cast to.\<close>

lemma pass_next_day:
  assumes rel: "\<forall>op. db_raises e op = None"
    and rng: "in_range (local_date clk) (EXPIRY_WARNING_DAYS cfg)"
      "in_range (local_date clk) (EXPIRY_CRITICAL_DAYS cfg)"
    and dist: "distinct (map b_id (batches d))"
    and one: "\<forall>rw\<in>set (candidates cfg clk d). length (todays_alerts cfg clk d rw) \<le> 1"
    and rel2: "\<forall>op. db_raises e2 op = None"
    and rng2: "in_range (local_date clk2) (EXPIRY_WARNING_DAYS cfg)"
      "in_range (local_date clk2) (EXPIRY_CRITICAL_DAYS cfg)"
    and later: "local_date clk \<le> local_date clk2"
    and past: "\<forall>a\<in>set (alerts (fst (check_expiring_batches e cfg clk d))).
                 created_at a < cast_date (cast_offset clk2) (local_date clk2)"
    and mem2: "rw \<in> set (candidates cfg clk2 d)"
  shows "new_expiry_alert cfg clk2 rw
           \<in> set (alerts (fst (check_expiring_batches e2 cfg clk2
                             (fst (check_expiring_batches e cfg clk d)))))"
proof -
  let ?d1 = "fst (check_expiring_batches e cfg clk d)"
  have d1: "?d1 = d\<lparr>batches := map (expire (local_date clk)) (batches d),
                    alerts := alerts d @ map (new_expiry_alert cfg clk)
                      (fresh cfg clk d (candidates cfg clk d))\<rparr>"
    by (rule check_expiring_batches_ok [OF rel rng dist one])
  have none: "\<And>r. todays_alerts cfg clk2 ?d1 r = []"
    using past by (auto simp: todays_alerts_def existing_alert_def filter_empty_conv)
  have dist1: "distinct (map b_id (batches ?d1))"
    using dist by (subst d1) (simp add: comp_def)
  have c2: "candidates cfg clk2 ?d1 = candidates cfg clk2 d"
    by (rule candidates_after_expire [where t = "local_date clk"])
      (simp_all add: d1 later)
  have one2: "\<forall>r\<in>set (candidates cfg clk2 ?d1). length (todays_alerts cfg clk2 ?d1 r) \<le> 1"
    using none by simp
  have "rw \<in> set (fresh cfg clk2 ?d1 (candidates cfg clk2 ?d1))"
    using mem2 c2 none by (simp add: fresh_def)
  then show ?thesis
    unfolding check_expiring_batches_ok [OF rel2 rng2 dist1 one2] by simp
qed

text \<open>The second run creates the alerts again when the clocks disagree: the first run
  is made when the date of the process is 2024-06-10 and the server's time is one hour
  before the midnight that this date is cast to; the second a few hours later.\<close>

lemma second_pass_when_clocks_disagree:
  "map batch_id (alerts (fst (check_expiring_batches calm (Settings Map.empty) early shelf)))
     = [1, 2]
   \<and> map batch_id
       (alerts (fst (check_expiring_batches calm (Settings Map.empty) (at_noon (june 10))
                  (fst (check_expiring_batches calm (Settings Map.empty) early shelf)))))
     = [1, 2, 1, 2]"
proof -
  let ?cfg = "Settings Map.empty"
  let ?d1 = "fst (check_expiring_batches calm ?cfg early shelf)"
  have e: "local_date early = june 10" "server_now early = june 10 * 86400 - 3600"
    "cast_offset early = 0"
    by (simp_all add: early_def)
  have h1: "\<forall>op. db_raises calm op = None" by simp
  have r1: "in_range (local_date early) (EXPIRY_WARNING_DAYS ?cfg)"
    and r2: "in_range (local_date early) (EXPIRY_CRITICAL_DAYS ?cfg)"
    by (simp_all add: e)
  have h4: "distinct (map b_id (batches shelf))" by simp
  have ce: "candidates ?cfg early shelf = candidates ?cfg (at_noon (june 10)) shelf"
    by (rule candidates_same_day) (simp add: e)
  have one: "\<forall>rw\<in>set (candidates ?cfg early shelf). length (todays_alerts ?cfg early shelf rw) \<le> 1"
    by (simp add: todays_alerts_def existing_alert_def)
  have d1: "?d1 = shelf\<lparr>batches := map (expire (local_date early)) (batches shelf),
                    alerts := alerts shelf @ map (new_expiry_alert ?cfg early)
                      (fresh ?cfg early shelf (candidates ?cfg early shelf))\<rparr>"
    by (rule check_expiring_batches_ok [OF h1 r1 r2 h4 one])
  have al1: "alerts ?d1 = map (new_expiry_alert ?cfg early) (candidates ?cfg early shelf)"
    by (subst d1) (simp add: fresh_def todays_alerts_def existing_alert_def)
  have a1: "map batch_id (alerts ?d1) = [1, 2]"
    unfolding al1 ce by (simp add: candidates_shelf new_expiry_alert_simps)
  have s1: "in_range (local_date (at_noon (june 10))) (EXPIRY_WARNING_DAYS ?cfg)"
    and s2: "in_range (local_date (at_noon (june 10))) (EXPIRY_CRITICAL_DAYS ?cfg)" by simp_all
  have dist1: "distinct (map b_id (batches ?d1))"
    by (subst d1) (simp add: comp_def)
  have none: "\<And>r. todays_alerts ?cfg (at_noon (june 10)) ?d1 r = []"
    unfolding todays_alerts_def existing_alert_def al1 ce
    by (simp add: candidates_shelf new_expiry_alert_simps e cast_date_def june_eq)
  have one2: "\<forall>r\<in>set (candidates ?cfg (at_noon (june 10)) ?d1).
      length (todays_alerts ?cfg (at_noon (june 10)) ?d1 r) \<le> 1"
    using none by simp
  have c2: "candidates ?cfg (at_noon (june 10)) ?d1 = candidates ?cfg (at_noon (june 10)) shelf"
    by (rule candidates_after_expire [where t = "local_date early"]) (simp_all add: d1 e)
  have "alerts (fst (check_expiring_batches calm ?cfg (at_noon (june 10)) ?d1))
      = alerts ?d1 @ map (new_expiry_alert ?cfg (at_noon (june 10)))
          (candidates ?cfg (at_noon (june 10)) shelf)"
    unfolding check_expiring_batches_ok [OF h1 s1 s2 dist1 one2]
    using none c2 by (simp add: fresh_def)
  then have a2: "map batch_id
       (alerts (fst (check_expiring_batches calm ?cfg (at_noon (june 10)) ?d1)))
     = [1, 2, 1, 2]"
    using a1 by (simp add: candidates_shelf new_expiry_alert_simps)
  show ?thesis using a1 a2 by simp
qed

subsection \<open>The transition of the expired batches\<close>

text \<open>A pass that meets no failure marks exactly the batches that were active, not
  marked expired and had an expiry date no later than today, whatever their quantity;
  afterwards the query of the expired batches returns no row for that day.\<close>

lemma expired_marked_when_pass_commits:
  assumes rel: "\<forall>op. db_raises e op = None"
    and rng: "in_range (local_date clk) (EXPIRY_WARNING_DAYS cfg)"
      "in_range (local_date clk) (EXPIRY_CRITICAL_DAYS cfg)"
    and dist: "distinct (map b_id (batches d))"
    and one: "\<forall>rw\<in>set (candidates cfg clk d). length (todays_alerts cfg clk d rw) \<le> 1"
  shows "batches (fst (check_expiring_batches e cfg clk d)) =
           map (\<lambda>b. if is_active b \<and> \<not> is_expired b \<and> expiry_date b \<le> local_date clk
                    then b\<lparr>is_expired := True, is_active := False\<rparr> else b)
             (batches d)"
    and "expired_batches (local_date clk) (fst (check_expiring_batches e cfg clk d)) = []"
proof -
  have ex: "expire (local_date clk) =
      (\<lambda>b. if is_active b \<and> \<not> is_expired b \<and> expiry_date b \<le> local_date clk
           then b\<lparr>is_expired := True, is_active := False\<rparr> else b)"
    by (auto simp: expire_def)
  have p1: "batches (fst (check_expiring_batches e cfg clk d))
      = map (expire (local_date clk)) (batches d)"
    unfolding check_expiring_batches_ok [OF rel rng dist one] by simp
  show "batches (fst (check_expiring_batches e cfg clk d)) =
           map (\<lambda>b. if is_active b \<and> \<not> is_expired b \<and> expiry_date b \<le> local_date clk
                    then b\<lparr>is_expired := True, is_active := False\<rparr> else b)
             (batches d)"
    using p1 unfolding ex .
  show "expired_batches (local_date clk) (fst (check_expiring_batches e cfg clk d)) = []"
    unfolding expired_batches_def p1 by (auto simp: filter_empty_conv expire_def)
qed

subsection \<open>A store in which a candidate has two alerts of the day\<close>

lemma check_expiring_batches_crowded:
  "check_expiring_batches calm (Settings Map.empty) (at_noon (june 10)) crowded =
     (crowded, [INFO ''Starting expiry check task...'',
                ERROR ''Error in expiry check task: Multiple rows were found when one or none was required''])"
proof -
  let ?cfg = "Settings Map.empty"
  let ?clk = "at_noon (june 10)"
  let ?st0 = "begin_pass ''Starting expiry check task...'' crowded"
  have step: "alert_batch calm ?cfg ?clk (lot 1 3 (june 11), milk, depot) ?st0
      = Inl MultipleResultsFound"
    unfolding alert_batch_eq by (simp add: todays_alerts_crowded)
  have loop: "alert_batches calm ?cfg ?clk (candidates ?cfg ?clk shelf) ?st0
      = Inl (MultipleResultsFound, ?st0)"
    by (simp add: candidates_shelf step)
  have pass: "expiry_pass calm ?cfg ?clk ?st0 = Inl (MultipleResultsFound, ?st0)"
    using expiry_pass_in_range [of ?clk ?cfg calm ?st0] by (simp add: loop)
  show ?thesis
    by (simp add: check_expiring_batches_def Let_def pass) (simp add: begin_pass_def)
qed

text \<open>
  Claim C1, at a store on which it fails. The store \<open>crowded\<close> holds the four batches of
  the shelf and two alerts of type \<open>expiry_critical\<close> for the first batch, both created
  at noon of 2024-06-10. On that day, with the default thresholds, the second batch is a
  candidate (active, quantity 4, expiring on 2024-06-15) and no alert at all exists for
  it; for the first batch the deduplication lookup finds two rows. The pass run at noon,
  in an environment where nothing else raises, fails with \<open>MultipleResultsFound\<close> at the
  first candidate and is rolled back: the committed rows are those before the
  invocation, and the second batch has got no alert.
\<close>

theorem duplicate_alerts_block_alerting:
  "alerts crowded = [twin, twin]
   \<and> existing_alert 0 crowded 1 ''expiry_critical'' (june 10) = [twin, twin]
   \<and> lot 2 4 (june 15) \<in> set (batches crowded)
   \<and> is_active (lot 2 4 (june 15)) \<and> 0 < current_quantity (lot 2 4 (june 15))
   \<and> june 10 < expiry_date (lot 2 4 (june 15))
   \<and> expiry_date (lot 2 4 (june 15)) \<le> june 10 + EXPIRY_WARNING_DAYS (Settings Map.empty)
   \<and> join_row crowded (lot 2 4 (june 15)) = Some (lot 2 4 (june 15), milk, depot)
   \<and> filter (\<lambda>a. batch_id a = 2) (alerts crowded) = []
   \<and> check_expiring_batches calm (Settings Map.empty) (at_noon (june 10)) crowded =
       (crowded, [INFO ''Starting expiry check task...'',
                  ERROR ''Error in expiry check task: Multiple rows were found when one or none was required''])
   \<and> filter (\<lambda>a. batch_id a = 2)
       (alerts (fst (check_expiring_batches calm (Settings Map.empty) (at_noon (june 10)) crowded)))
       = []"
  unfolding check_expiring_batches_crowded
  by (simp add: existing_alert_def cast_date_def noon_def june_eq)

text \<open>
  Claim C3, at a store on which it fails. In the store \<open>crowded\<close> the third batch is
  active, not marked expired, and expired on 2024-06-09. The pass run at noon of
  2024-06-10 with the default thresholds, in an environment where nothing else raises,
  fails in the alert loop, where the deduplication lookup of the first batch finds two
  rows, before the query of the expired batches is reached; it is rolled back, and the
  third batch stays active and unmarked.
\<close>

theorem duplicate_alerts_block_expiry_transition:
  "lot 3 9 (june 9) \<in> set (batches crowded)
   \<and> is_active (lot 3 9 (june 9)) \<and> \<not> is_expired (lot 3 9 (june 9))
   \<and> expiry_date (lot 3 9 (june 9)) \<le> local_date (at_noon (june 10))
   \<and> expired_batches (local_date (at_noon (june 10))) crowded = [lot 3 9 (june 9)]
   \<and> existing_alert 0 crowded 1 ''expiry_critical'' (june 10) = [twin, twin]
   \<and> expiry_pass calm (Settings Map.empty) (at_noon (june 10))
        (begin_pass ''Starting expiry check task...'' crowded)
       = Inl (MultipleResultsFound, begin_pass ''Starting expiry check task...'' crowded)
   \<and> batches (fst (check_expiring_batches calm (Settings Map.empty) (at_noon (june 10)) crowded))
       = [lot 1 3 (june 11), lot 2 4 (june 15), lot 3 9 (june 9), lot 4 0 (june 12)]"
proof -
  let ?cfg = "Settings Map.empty"
  let ?clk = "at_noon (june 10)"
  let ?st0 = "begin_pass ''Starting expiry check task...'' crowded"
  have step: "alert_batch calm ?cfg ?clk (lot 1 3 (june 11), milk, depot) ?st0
      = Inl MultipleResultsFound"
    unfolding alert_batch_eq by (simp add: todays_alerts_crowded)
  have loop: "alert_batches calm ?cfg ?clk (candidates ?cfg ?clk shelf) ?st0
      = Inl (MultipleResultsFound, ?st0)"
    by (simp add: candidates_shelf step)
  have pass: "expiry_pass calm ?cfg ?clk ?st0 = Inl (MultipleResultsFound, ?st0)"
    using expiry_pass_in_range [of ?clk ?cfg calm ?st0] by (simp add: loop)
  have ex: "expired_batches (local_date ?clk) crowded = [lot 3 9 (june 9)]"
    by (simp add: expired_batches_def june_eq)
  show ?thesis
    unfolding pass ex fst_check_expiring_batches
    by (simp add: existing_alert_def cast_date_def noon_def june_eq)
qed

subsection \<open>The passes of the low-stock job\<close>

lemma new_low_stock_alert_simps:
  "batch_id (new_low_stock_alert now rw) = b_id (fst rw)"
  "branch_id (new_low_stock_alert now rw) = br_id (snd (snd rw))"
  "alert_level (new_low_stock_alert now rw) = ''info''"
  "alert_type (new_low_stock_alert now rw) = ''low_stock''"
  "days_to_expiry (new_low_stock_alert now rw) = None"
  "status (new_low_stock_alert now rw) = ''pending''"
  "created_at (new_low_stock_alert now rw) = now"
  by (cases rw; simp add: new_low_stock_alert_def)+

lemma alert_low_stock_eq:
  "alert_low_stock e now rw st =
     (case db_raises e (Select_Pending_Alert (b_id (fst rw))) of
        Some m \<Rightarrow> Inl (Raised m)
      | None \<Rightarrow>
          (case pending_low_stock (tx st) (b_id (fst rw)) of
             [] \<Rightarrow> Inr (low_alerted now rw st)
           | [a] \<Rightarrow> Inr st
           | _ \<Rightarrow> Inl MultipleResultsFound))"
proof -
  obtain b p r where rw: "rw = (b, p, r)" by (cases rw)
  show ?thesis
  proof (cases "pending_low_stock (tx st) (b_id b)")
    case Nil
    then show ?thesis
      by (simp add: rw alert_low_stock_def low_alerted_def split: option.splits)
  next
    case (Cons a as)
    then show ?thesis
      by (cases as) (simp_all add: rw alert_low_stock_def low_alerted_def split: option.splits)
  qed
qed

lemma tx_low_alerted [simp]:
  "tx (low_alerted now rw st) = db_add (new_low_stock_alert now rw) (tx st)"
  by (simp add: low_alerted_def)

lemma low_created_simps [simp]:
  "low_created now [] st = st"
  "low_created now (rw # rows) st = low_created now rows (low_alerted now rw st)"
  by (simp_all add: low_created_def)

lemma tx_low_created:
  "tx (low_created now rows st) =
     (tx st)\<lparr>alerts := alerts (tx st) @ map (new_low_stock_alert now) rows\<rparr>"
  by (induction rows arbitrary: st) (simp_all add: db_add_def)

lemma pending_low_stock_db_add_other:
  "batch_id a \<noteq> bid \<Longrightarrow> pending_low_stock (db_add a d) bid = pending_low_stock d bid"
  by (simp add: pending_low_stock_def)

lemma alert_low_stock_Inr:
  assumes "alert_low_stock e now rw st = Inr st'"
  shows "(pending_low_stock (tx st) (b_id (fst rw)) = [] \<and> st' = low_alerted now rw st)
       \<or> (pending_low_stock (tx st) (b_id (fst rw)) \<noteq> [] \<and> st' = st)"
  using assms unfolding alert_low_stock_eq
  by (auto split: option.splits list.splits)

lemma alert_low_stock_many:
  assumes "2 \<le> length (pending_low_stock (tx st) (b_id (fst rw)))"
  shows "\<exists>err. alert_low_stock e now rw st = Inl err"
  using assms unfolding alert_low_stock_eq
  by (auto split: option.splits list.splits)

lemma alert_low_stock_grows:
  assumes "alert_low_stock e now rw st = Inr st'"
  shows "length (pending_low_stock (tx st) bid) \<le> length (pending_low_stock (tx st') bid)"
  using alert_low_stock_Inr [OF assms]
  by (auto simp: pending_low_stock_def)

lemma alert_low_stocks_many:
  assumes "rw \<in> set rows" and "2 \<le> length (pending_low_stock (tx st) (b_id (fst rw)))"
  shows "\<exists>err st'. alert_low_stocks e now rows st = Inl (err, st')"
  using assms
proof (induction rows arbitrary: st)
  case Nil
  then show ?case by simp
next
  case (Cons r rows)
  show ?case
  proof (cases "alert_low_stock e now r st")
    case (Inl err)
    then show ?thesis by simp
  next
    case (Inr st1)
    have "r \<noteq> rw" using alert_low_stock_many [OF Cons.prems(2), of e now] Inr by auto
    then have mem: "rw \<in> set rows" using Cons.prems(1) by simp
    have "2 \<le> length (pending_low_stock (tx st1) (b_id (fst rw)))"
      using alert_low_stock_grows [OF Inr, of "b_id (fst rw)"] Cons.prems(2) by linarith
    from Cons.IH [OF mem this] show ?thesis using Inr by simp
  qed
qed

lemma alert_low_stocks_batches:
  assumes "alert_low_stocks e now rows st = Inr st'"
  shows "batches (tx st') = batches (tx st)"
  using assms
proof (induction rows arbitrary: st)
  case Nil
  then show ?case by simp
next
  case (Cons r rows)
  show ?case
  proof (cases "alert_low_stock e now r st")
    case (Inl err)
    then show ?thesis using Cons.prems by simp
  next
    case (Inr st1)
    then have "batches (tx st1) = batches (tx st)"
      using alert_low_stock_Inr [OF Inr] by auto
    then show ?thesis using Cons Inr by simp
  qed
qed

lemma alert_low_stocks_ok:
  assumes rel: "\<forall>bid. db_raises e (Select_Pending_Alert bid) = None"
    and dist: "distinct (map (\<lambda>rw. b_id (fst rw)) rows)"
    and one: "\<forall>rw\<in>set rows. length (pending_low_stock d0 (b_id (fst rw))) \<le> 1"
    and same: "\<forall>rw\<in>set rows. pending_low_stock (tx st) (b_id (fst rw))
                 = pending_low_stock d0 (b_id (fst rw))"
  shows "alert_low_stocks e now rows st = Inr (low_created now (unalerted d0 rows) st)"
  using dist one same
proof (induction rows arbitrary: st)
  case Nil
  then show ?case by (simp add: unalerted_def)
next
  case (Cons r rows)
  have d': "distinct (map (\<lambda>rw. b_id (fst rw)) rows)"
    and o': "\<forall>rw\<in>set rows. length (pending_low_stock d0 (b_id (fst rw))) \<le> 1"
    using Cons.prems by simp_all
  have "b_id (fst r) \<notin> (\<lambda>rw. b_id (fst rw)) ` set rows"
    using Cons.prems(1) by simp
  then have other: "\<forall>rw\<in>set rows. b_id (fst rw) \<noteq> b_id (fst r)"
    by (metis imageI)
  have r0: "pending_low_stock (tx st) (b_id (fst r)) = pending_low_stock d0 (b_id (fst r))"
    using Cons.prems(3) by simp
  show ?case
  proof (cases "pending_low_stock d0 (b_id (fst r))")
    case Nil
    let ?st1 = "low_alerted now r st"
    have step: "alert_low_stock e now r st = Inr ?st1"
      unfolding alert_low_stock_eq using rel r0 Nil by simp
    have "\<forall>rw\<in>set rows. pending_low_stock (tx ?st1) (b_id (fst rw))
        = pending_low_stock d0 (b_id (fst rw))"
    proof
      fix rw assume rw: "rw \<in> set rows"
      then have "batch_id (new_low_stock_alert now r) \<noteq> b_id (fst rw)"
        using other by (simp add: new_low_stock_alert_simps) metis
      then show "pending_low_stock (tx ?st1) (b_id (fst rw)) = pending_low_stock d0 (b_id (fst rw))"
        using rw Cons.prems(3) by (simp add: pending_low_stock_db_add_other)
    qed
    from Cons.IH [OF d' o' this] show ?thesis
      using step Nil by (simp add: unalerted_def)
  next
    case (Cons a as)
    then have as: "as = []" using Cons.prems(2) by simp
    have step: "alert_low_stock e now r st = Inr st"
      unfolding alert_low_stock_eq using rel r0 Cons as by simp
    have "\<forall>rw\<in>set rows. pending_low_stock (tx st) (b_id (fst rw))
        = pending_low_stock d0 (b_id (fst rw))"
      using Cons.prems(3) by simp
    from Cons.IH [OF d' o' this] show ?thesis
      using step Cons by (simp add: unalerted_def)
  qed
qed

lemma map_fst_low_stock_batches:
  "map fst (low_stock_batches d) =
     filter (\<lambda>b. join_row d b \<noteq> None)
       (filter (\<lambda>b. is_active b \<and> 0 < current_quantity b \<and> current_quantity b \<le> 5) (batches d))"
proof -
  have eq: "filter (\<lambda>b. is_active b = True \<and> current_quantity b > 0
              \<and> current_quantity b \<le> LOW_STOCK_THRESHOLD) (batches d)
      = filter (\<lambda>b. is_active b \<and> 0 < current_quantity b \<and> current_quantity b \<le> 5) (batches d)"
    by (rule filter_cong) (auto simp: LOW_STOCK_THRESHOLD_def)
  show ?thesis
    unfolding low_stock_batches_def map_fst_map_filter_join eq ..
qed

lemma distinct_low_stock_ids:
  assumes "distinct (map b_id (batches d))"
  shows "distinct (map (\<lambda>rw. b_id (fst rw)) (low_stock_batches d))"
proof -
  have "map (\<lambda>rw. b_id (fst rw)) (low_stock_batches d) = map b_id (map fst (low_stock_batches d))"
    by simp
  then show ?thesis
    unfolding map_fst_low_stock_batches using assms by (simp add: distinct_map_filter)
qed

lemma fst_check_low_stock:
  "fst (check_low_stock e now d) =
     (case low_stock_pass e now (begin_pass ''Starting low stock check...'' d) of
        Inl x \<Rightarrow> d | Inr st \<Rightarrow> tx st)"
  by (simp add: check_low_stock_def Let_def split: sum.splits prod.splits)

lemma low_stock_pass_ok:
  assumes rel: "\<forall>op. db_raises e op = None"
    and dist: "distinct (map b_id (batches d))"
    and one: "\<forall>rw\<in>set (low_stock_batches d). length (pending_low_stock d (b_id (fst rw))) \<le> 1"
  shows "low_stock_pass e now (begin_pass line d)
       = Inr (low_created now (unalerted d (low_stock_batches d)) (begin_pass line d))"
proof -
  let ?st0 = "begin_pass line d"
  have loop: "alert_low_stocks e now (low_stock_batches d) ?st0
      = Inr (low_created now (unalerted d (low_stock_batches d)) ?st0)"
    using rel distinct_low_stock_ids [OF dist] one
    by (intro alert_low_stocks_ok) simp_all
  show ?thesis
    using rel loop by (simp add: low_stock_pass_def)
qed

lemma check_low_stock_ok:
  assumes rel: "\<forall>op. db_raises e op = None"
    and dist: "distinct (map b_id (batches d))"
    and one: "\<forall>rw\<in>set (low_stock_batches d). length (pending_low_stock d (b_id (fst rw))) \<le> 1"
  shows "fst (check_low_stock e now d) =
           d\<lparr>alerts := alerts d @ map (new_low_stock_alert now)
                (unalerted d (low_stock_batches d))\<rparr>"
  unfolding fst_check_low_stock low_stock_pass_ok [OF assms]
  by (simp add: tx_low_created)

lemma batches_check_low_stock:
  "batches (fst (check_low_stock e now d)) = batches d"
proof (cases "low_stock_pass e now (begin_pass ''Starting low stock check...'' d)")
  case (Inl x)
  then show ?thesis by (simp add: fst_check_low_stock)
next
  case (Inr st)
  then have "alert_low_stocks e now (low_stock_batches d)
      (begin_pass ''Starting low stock check...'' d) = Inr st"
    by (auto simp: low_stock_pass_def split: option.splits sum.splits)
  from alert_low_stocks_batches [OF this] show ?thesis
    using Inr by (simp add: fst_check_low_stock)
qed

lemma fst_check_low_stock_ambiguous:
  assumes "rw \<in> set (low_stock_batches d)"
    and "2 \<le> length (pending_low_stock d (b_id (fst rw)))"
  shows "fst (check_low_stock e now d) = d"
proof -
  let ?st0 = "begin_pass ''Starting low stock check...'' d"
  obtain err st where "alert_low_stocks e now (low_stock_batches d) ?st0 = Inl (err, st)"
    using alert_low_stocks_many [OF assms(1), of ?st0 e now] assms(2) by auto
  then show ?thesis
    unfolding fst_check_low_stock
    by (simp add: low_stock_pass_def split: option.splits)
qed

lemma alert_low_stocks_Inr_tx:
  assumes "alert_low_stocks e now rows st = Inr st'"
  shows "\<exists>rows'. set rows' \<subseteq> set rows
           \<and> tx st' = (tx st)\<lparr>alerts := alerts (tx st) @ map (new_low_stock_alert now) rows'\<rparr>"
  using assms
proof (induction rows arbitrary: st)
  case Nil
  then show ?case by simp
next
  case (Cons r rows)
  show ?case
  proof (cases "alert_low_stock e now r st")
    case (Inl err)
    then show ?thesis using Cons.prems by simp
  next
    case (Inr st1)
    then have "alert_low_stocks e now rows st1 = Inr st'"
      using Cons.prems by simp
    from Cons.IH [OF this] obtain rows' where r': "set rows' \<subseteq> set rows"
      and t: "tx st' = (tx st1)\<lparr>alerts := alerts (tx st1) @ map (new_low_stock_alert now) rows'\<rparr>"
      by blast
    from alert_low_stock_Inr [OF Inr] show ?thesis
    proof
      assume "pending_low_stock (tx st) (b_id (fst r)) = [] \<and> st1 = low_alerted now r st"
      then have "tx st' = (tx st)\<lparr>alerts := alerts (tx st)
          @ map (new_low_stock_alert now) (r # rows')\<rparr>"
        using t by (simp add: db_add_def)
      moreover have "set (r # rows') \<subseteq> set (r # rows)" using r' by auto
      ultimately show ?thesis by blast
    next
      assume "pending_low_stock (tx st) (b_id (fst r)) \<noteq> [] \<and> st1 = st"
      then have "tx st' = (tx st)\<lparr>alerts := alerts (tx st)
          @ map (new_low_stock_alert now) rows'\<rparr>"
        using t by simp
      moreover have "set rows' \<subseteq> set (r # rows)" using r' by auto
      ultimately show ?thesis by blast
    qed
  qed
qed

lemma alerts_check_low_stock_cases:
  "\<exists>rows'. set rows' \<subseteq> set (low_stock_batches d)
     \<and> alerts (fst (check_low_stock e now d)) = alerts d @ map (new_low_stock_alert now) rows'"
proof (cases "low_stock_pass e now (begin_pass ''Starting low stock check...'' d)")
  case (Inl x)
  then have "alerts (fst (check_low_stock e now d)) = alerts d @ map (new_low_stock_alert now) []"
    by (simp add: fst_check_low_stock)
  then show ?thesis by (metis empty_set empty_subsetI)
next
  case (Inr st)
  then have "alert_low_stocks e now (low_stock_batches d)
      (begin_pass ''Starting low stock check...'' d) = Inr st"
    by (auto simp: low_stock_pass_def split: option.splits sum.splits)
  from alert_low_stocks_Inr_tx [OF this] show ?thesis
    using Inr by (auto simp: fst_check_low_stock)
qed

lemma mem_low_stock_batches:
  "rw \<in> set (low_stock_batches d) \<longleftrightarrow>
     (\<exists>b\<in>set (batches d). is_active b \<and> 0 < current_quantity b \<and> current_quantity b \<le> 5
        \<and> join_row d b = Some rw)"
  by (auto simp: low_stock_batches_def set_map_filter LOW_STOCK_THRESHOLD_def)

lemma low_stock_candidate:
  assumes "rw \<in> set (low_stock_batches d)"
  shows "fst rw \<in> set (batches d) \<and> is_active (fst rw) \<and> 0 < current_quantity (fst rw)
       \<and> current_quantity (fst rw) \<le> 5"
  using assms unfolding mem_low_stock_batches by (auto dest: join_row_fst)

text \<open>
  Claim C8 (as amended). The threshold of the low-stock job is the constant 5 written in
  the job; no configuration input reaches it. A batch is joined into a candidate row of
  the job exactly when it is active and its quantity is positive and at most 5; when
  every batch has its product and branch, the candidates are exactly those batches. In a
  pass that meets no failure (batch ids distinct, no candidate with two pending low-stock
  alerts) every candidate without a pending low-stock alert gets one. A batch that is
  not active with a quantity from 1 to 5 (of quantity 6, say) gets no low-stock alert
  from any invocation.
\<close>

theorem low_stock_threshold:
  "LOW_STOCK_THRESHOLD = 5
   \<and> (rw \<in> set (low_stock_batches d) \<longleftrightarrow>
        (\<exists>b\<in>set (batches d). is_active b \<and> 0 < current_quantity b \<and> current_quantity b \<le> 5
            \<and> join_row d b = Some rw))
   \<and> ((\<forall>b\<in>set (batches d). join_row d b \<noteq> None) \<longrightarrow>
        map fst (low_stock_batches d)
          = filter (\<lambda>b. is_active b \<and> 0 < current_quantity b \<and> current_quantity b \<le> 5)
              (batches d))
   \<and> ((\<forall>op. db_raises e op = None) \<longrightarrow> distinct (map b_id (batches d)) \<longrightarrow>
       (\<forall>r\<in>set (low_stock_batches d). length (pending_low_stock d (b_id (fst r))) \<le> 1) \<longrightarrow>
       (\<forall>r\<in>set (low_stock_batches d). pending_low_stock d (b_id (fst r)) = [] \<longrightarrow>
          new_low_stock_alert now r \<in> set (alerts (fst (check_low_stock e now d)))))
   \<and> (distinct (map b_id (batches d)) \<longrightarrow>
        (\<forall>b\<in>set (batches d).
           \<not> (is_active b \<and> 0 < current_quantity b \<and> current_quantity b \<le> 5) \<longrightarrow>
           filter (\<lambda>a. batch_id a = b_id b) (alerts (fst (check_low_stock e now d)))
             = filter (\<lambda>a. batch_id a = b_id b) (alerts d)))"
proof -
  have p2: "map fst (low_stock_batches d)
          = filter (\<lambda>b. is_active b \<and> 0 < current_quantity b \<and> current_quantity b \<le> 5)
              (batches d)"
    if "\<forall>b\<in>set (batches d). join_row d b \<noteq> None"
    unfolding map_fst_low_stock_batches using that by (intro filter_True) simp
  have p3: "filter (\<lambda>a. batch_id a = b_id b) (alerts (fst (check_low_stock e now d)))
             = filter (\<lambda>a. batch_id a = b_id b) (alerts d)"
    if dist: "distinct (map b_id (batches d))" and b: "b \<in> set (batches d)"
      and q: "\<not> (is_active b \<and> 0 < current_quantity b \<and> current_quantity b \<le> 5)" for b
  proof -
    have other: "batch_id (new_low_stock_alert now r) \<noteq> b_id b"
      if "r \<in> set (low_stock_batches d)" for r
    proof
      assume "batch_id (new_low_stock_alert now r) = b_id b"
      then have "b_id (fst r) = b_id b" by (simp add: new_low_stock_alert_simps)
      moreover have c: "fst r \<in> set (batches d) \<and> is_active (fst r) \<and> 0 < current_quantity (fst r)
          \<and> current_quantity (fst r) \<le> 5"
        by (rule low_stock_candidate [OF that])
      moreover have "inj_on b_id (set (batches d))"
        using dist by (simp add: distinct_map)
      ultimately have "fst r = b" using b by (auto dest: inj_onD)
      then show False using c q by simp
    qed
    obtain rows' where sub: "set rows' \<subseteq> set (low_stock_batches d)"
      and al: "alerts (fst (check_low_stock e now d)) = alerts d @ map (new_low_stock_alert now) rows'"
      using alerts_check_low_stock_cases by blast
    have "filter (\<lambda>a. batch_id a = b_id b) (map (new_low_stock_alert now) rows') = []"
      using sub other by (auto simp: filter_empty_conv)
    then show ?thesis unfolding al by simp
  qed
  have p4: "new_low_stock_alert now r \<in> set (alerts (fst (check_low_stock e now d)))"
    if rel: "\<forall>op. db_raises e op = None" and dist: "distinct (map b_id (batches d))"
      and one: "\<forall>r\<in>set (low_stock_batches d). length (pending_low_stock d (b_id (fst r))) \<le> 1"
      and mem: "r \<in> set (low_stock_batches d)"
      and none: "pending_low_stock d (b_id (fst r)) = []" for r
    unfolding check_low_stock_ok [OF rel dist one] using mem none by (simp add: unalerted_def)
  have p0: "LOW_STOCK_THRESHOLD = 5"
    by (simp add: LOW_STOCK_THRESHOLD_def)
  show ?thesis
    using p0 p2 p3 p4 mem_low_stock_batches [of rw d] by blast
qed

lemma pantry_simps [simp]:
  "batches pantry = [lot 1 3 (june 30), lot 2 4 (june 30), lot 5 5 (june 30), lot 6 6 (june 30),
                     lot 7 7 (june 30)]"
  "alerts pantry = [old_alert ''pending'' 1, old_alert ''acknowledged'' 2]"
  "join_row pantry (lot i q ex) = Some (lot i q ex, milk, depot)"
  by (simp_all add: pantry_def join_row_def lot_def)

lemma old_alert_simps [simp]:
  "batch_id (old_alert st bid) = bid" "alert_type (old_alert st bid) = ''low_stock''"
  "status (old_alert st bid) = st"
  by (simp_all add: old_alert_def)

lemma low_stock_batches_pantry:
  "low_stock_batches pantry =
     [(lot 1 3 (june 30), milk, depot), (lot 2 4 (june 30), milk, depot),
      (lot 5 5 (june 30), milk, depot)]"
  by (simp add: low_stock_batches_def List.map_filter_simps LOW_STOCK_THRESHOLD_def)

lemma pending_low_stock_pantry:
  "pending_low_stock pantry 1 = [old_alert ''pending'' 1]"
  "pending_low_stock pantry 2 = []"
  "pending_low_stock pantry 5 = []"
  by (simp_all add: pending_low_stock_def)

lemma alerts_check_low_stock_pantry:
  "alerts (fst (check_low_stock calm (noon (june 10)) pantry)) =
     [old_alert ''pending'' 1, old_alert ''acknowledged'' 2,
      new_low_stock_alert (noon (june 10)) (lot 2 4 (june 30), milk, depot),
      new_low_stock_alert (noon (june 10)) (lot 5 5 (june 30), milk, depot)]"
proof -
  have h1: "\<forall>op. db_raises calm op = None" by simp
  have h2: "distinct (map b_id (batches pantry))" by simp
  have h3: "\<forall>rw\<in>set (low_stock_batches pantry).
      length (pending_low_stock pantry (b_id (fst rw))) \<le> 1"
    by (simp add: low_stock_batches_pantry pending_low_stock_pantry)
  show ?thesis
    unfolding check_low_stock_ok [OF h1 h2 h3]
    by (simp add: unalerted_def low_stock_batches_pantry pending_low_stock_pantry)
qed

text \<open>The batch of quantity 5 is selected and gets an alert; the batch of quantity 6 is
  not selected and gets none.\<close>

theorem low_stock_threshold_witness:
  "map fst (low_stock_batches pantry) = [lot 1 3 (june 30), lot 2 4 (june 30), lot 5 5 (june 30)]
   \<and> new_low_stock_alert (noon (june 10)) (lot 5 5 (june 30), milk, depot)
       \<in> set (alerts (fst (check_low_stock calm (noon (june 10)) pantry)))
   \<and> (lot 6 6 (june 30), milk, depot) \<notin> set (low_stock_batches pantry)
   \<and> filter (\<lambda>a. batch_id a = 6) (alerts (fst (check_low_stock calm (noon (june 10)) pantry))) = []"
proof -
  note T = low_stock_threshold [of _ pantry calm "noon (june 10)"]
  have fk: "\<forall>b\<in>set (batches pantry). join_row pantry b \<noteq> None" by simp
  have a1: "map fst (low_stock_batches pantry)
      = filter (\<lambda>b. is_active b \<and> 0 < current_quantity b \<and> current_quantity b \<le> 5)
          (batches pantry)"
    using T fk by blast
  have h1: "\<forall>op. db_raises calm op = None" by simp
  have h2: "distinct (map b_id (batches pantry))" by simp
  have h3: "\<forall>r\<in>set (low_stock_batches pantry).
      length (pending_low_stock pantry (b_id (fst r))) \<le> 1"
    by (simp add: low_stock_batches_pantry pending_low_stock_pantry)
  have m5: "(lot 5 5 (june 30), milk, depot) \<in> set (low_stock_batches pantry)"
    by (simp add: low_stock_batches_pantry)
  have "\<forall>r\<in>set (low_stock_batches pantry). pending_low_stock pantry (b_id (fst r)) = [] \<longrightarrow>
          new_low_stock_alert (noon (june 10)) r
            \<in> set (alerts (fst (check_low_stock calm (noon (june 10)) pantry)))"
    using T h1 h2 h3 by blast
  from this [rule_format, OF m5] have a2:
    "new_low_stock_alert (noon (june 10)) (lot 5 5 (june 30), milk, depot)
       \<in> set (alerts (fst (check_low_stock calm (noon (june 10)) pantry)))"
    by (simp add: pending_low_stock_pantry)
  have m: "lot 6 6 (june 30) \<in> set (batches pantry)" by simp
  have "\<forall>b\<in>set (batches pantry).
           \<not> (is_active b \<and> 0 < current_quantity b \<and> current_quantity b \<le> 5) \<longrightarrow>
           filter (\<lambda>a. batch_id a = b_id b) (alerts (fst (check_low_stock calm (noon (june 10)) pantry)))
             = filter (\<lambda>a. batch_id a = b_id b) (alerts pantry)"
    using T h2 by blast
  from this [rule_format, OF m] have a3: "filter (\<lambda>a. batch_id a = 6)
      (alerts (fst (check_low_stock calm (noon (june 10)) pantry))) = []"
    by simp
  have a4: "(lot 6 6 (june 30), milk, depot) \<notin> set (low_stock_batches pantry)"
    by (simp add: low_stock_batches_pantry lot_def)
  show ?thesis
    using a1 a2 a3 a4 by (simp add: low_stock_batches_pantry)
qed

text \<open>Were the threshold configured to 10, the batch of quantity 7 would be selected and
  alerted: it is neither.\<close>

theorem low_stock_threshold_counterexample:
  "lot 7 7 (june 30) \<in> set (batches pantry)
   \<and> is_active (lot 7 7 (june 30))
   \<and> 0 < current_quantity (lot 7 7 (june 30)) \<and> current_quantity (lot 7 7 (june 30)) \<le> 10
   \<and> (lot 7 7 (june 30), milk, depot) \<notin> set (low_stock_batches pantry)
   \<and> alerts (fst (check_low_stock calm (noon (june 10)) pantry)) =
       [old_alert ''pending'' 1, old_alert ''acknowledged'' 2,
        new_low_stock_alert (noon (june 10)) (lot 2 4 (june 30), milk, depot),
        new_low_stock_alert (noon (june 10)) (lot 5 5 (june 30), milk, depot)]"
  using alerts_check_low_stock_pantry by (simp add: low_stock_batches_pantry lot_def)

lemma unalerted_eq:
  "unalerted d rows =
     filter (\<lambda>rw. \<not> (\<exists>a\<in>set (alerts d). batch_id a = b_id (fst rw)
                       \<and> alert_type a = ''low_stock'' \<and> status a = ''pending'')) rows"
  unfolding unalerted_def pending_low_stock_def
  by (rule filter_cong) (auto simp: filter_empty_conv)

text \<open>A pass of the low-stock job that meets no failure (batch ids distinct, no candidate
  with two pending low-stock alerts) commits one new alert for each candidate for which
  the store holds no alert with its batch id, type \<open>low_stock\<close> and status \<open>pending\<close>,
  whenever that alert was created, and none for the others. No invocation changes a
  batch.\<close>

lemma low_stock_pass_without_duplicates:
  assumes "\<forall>op. db_raises e op = None"
    and "distinct (map b_id (batches d))"
    and "\<forall>rw\<in>set (low_stock_batches d). length (pending_low_stock d (b_id (fst rw))) \<le> 1"
  shows "(\<exists>st. low_stock_pass e now (begin_pass ''Starting low stock check...'' d) = Inr st)
       \<and> alerts (fst (check_low_stock e now d)) =
           alerts d @ map (new_low_stock_alert now)
             (filter (\<lambda>rw. \<not> (\<exists>a\<in>set (alerts d). batch_id a = b_id (fst rw)
                               \<and> alert_type a = ''low_stock'' \<and> status a = ''pending''))
                (low_stock_batches d))
       \<and> (\<forall>e2 now2. batches (fst (check_low_stock e2 now2 d)) = batches d)"
  unfolding check_low_stock_ok [OF assms] unalerted_eq [symmetric]
  using batches_check_low_stock low_stock_pass_ok [OF assms]
  by simp

lemma glut_simps [simp]:
  "alerts glut = [old_alert ''pending'' 1, old_alert ''pending'' 1]"
  "low_stock_batches glut = low_stock_batches pantry"
proof -
  have j: "join_row glut = join_row pantry"
    by (intro ext join_row_cong) (simp_all add: glut_def)
  have b: "batches glut = batches pantry"
    by (simp add: glut_def)
  show "low_stock_batches glut = low_stock_batches pantry"
    unfolding low_stock_batches_def j b ..
qed (simp add: glut_def)

lemma check_low_stock_glut:
  "check_low_stock calm (noon (june 10)) glut =
     (glut, [INFO ''Starting low stock check...'',
             ERROR ''Error in low stock check: Multiple rows were found when one or none was required''])"
proof -
  let ?st0 = "begin_pass ''Starting low stock check...'' glut"
  have p: "pending_low_stock glut 1 = [old_alert ''pending'' 1, old_alert ''pending'' 1]"
    by (simp add: pending_low_stock_def)
  have step: "alert_low_stock calm (noon (june 10)) (lot 1 3 (june 30), milk, depot) ?st0
      = Inl MultipleResultsFound"
    unfolding alert_low_stock_eq by (simp add: p)
  have loop: "alert_low_stocks calm (noon (june 10)) (low_stock_batches pantry) ?st0
      = Inl (MultipleResultsFound, ?st0)"
    by (simp add: low_stock_batches_pantry step)
  have pass: "low_stock_pass calm (noon (june 10)) ?st0 = Inl (MultipleResultsFound, ?st0)"
    by (simp add: low_stock_pass_def loop)
  show ?thesis
    by (simp add: check_low_stock_def Let_def pass) (simp add: begin_pass_def)
qed

text \<open>
  Claim C9, at a store on which it fails. The store \<open>glut\<close> holds five batches of
  quantities 3, 4, 5, 6 and 7 and two pending low-stock alerts for the first batch. The
  batch of quantity 5 is a candidate of the low-stock job and no pending low-stock alert
  exists for it; for the first batch the lookup of the job finds two rows. The pass run
  at noon of 2024-06-10, in an environment where nothing else raises, fails with
  \<open>MultipleResultsFound\<close> at the first candidate and is rolled back: the committed rows are
  those before the invocation, and the batch of quantity 5 has got no alert.
\<close>

theorem duplicate_pending_alerts_block_low_stock:
  "batches glut = [lot 1 3 (june 30), lot 2 4 (june 30), lot 5 5 (june 30), lot 6 6 (june 30),
                   lot 7 7 (june 30)]
   \<and> alerts glut = [old_alert ''pending'' 1, old_alert ''pending'' 1]
   \<and> pending_low_stock glut 1 = [old_alert ''pending'' 1, old_alert ''pending'' 1]
   \<and> (lot 5 5 (june 30), milk, depot) \<in> set (low_stock_batches glut)
   \<and> pending_low_stock glut 5 = []
   \<and> check_low_stock calm (noon (june 10)) glut =
       (glut, [INFO ''Starting low stock check...'',
               ERROR ''Error in low stock check: Multiple rows were found when one or none was required''])
   \<and> filter (\<lambda>a. batch_id a = 5) (alerts (fst (check_low_stock calm (noon (june 10)) glut))) = []"
proof -
  have b: "batches glut = batches pantry" by (simp add: glut_def)
  show ?thesis
    unfolding check_low_stock_glut b
    by (simp add: low_stock_batches_pantry pending_low_stock_def)
qed

end
